theory Spec2Isabelle
  imports Main "HOL-Library.Word" "HOL-Library.Sublist"
begin

section \<open>Machine integers, rights and errors\<close>

text \<open>
  Go's \<open>int64\<close> is a 64-bit two's complement word: \<open>+\<close>, \<open>-\<close> and \<open>*\<close> wrap, and
  \<open>sint\<close> reads the signed value. \<open>Right\<close> is declared \<open>type Right int\<close>, which is 64
  bits wide on the platforms the server is built for.
\<close>

type_synonym int64 = "64 word"
type_synonym Right = "64 word"

definition RightRead :: Right where "RightRead = 0"
definition RightWrite :: Right where "RightWrite = 1"
definition RightAdmin :: Right where "RightAdmin = 2"

text \<open>The database operations a session can be asked for; each of them may fail.\<close>

datatype db_op =
    QGetList | QGetNamespace | QGetUser | QGetListUser | QGetNamespaceUser
  | QInsertListUser | QInsertNamespaceUser | QDispatchEvent | QTouchList

text \<open>What \<open>bcrypt.CompareHashAndPassword\<close> can return besides \<open>nil\<close>.\<close>

datatype bcrypt_error = ErrMismatchedHashAndPassword | ErrHashTooShort | ErrOtherBcrypt string

datatype error =
    ErrInvalidRight Right
  | ErrListDoesNotExist int64
  | ErrNamespaceDoesNotExist int64
  | ErrUserDoesNotExist string
  | ErrUserAlreadyHasAccess int64 int64
  | ErrUserAlreadyHasNamespaceAccess int64 int64
  | ErrLinkSharePasswordRequired int64
  | ErrLinkSharePasswordInvalid int64
  | ErrBcrypt bcrypt_error
  | ErrDatabase db_op
  | ErrTaskCannotBeEmpty

text \<open>The type tests of \<open>error.go\<close>; \<open>None\<close> is Go's \<open>nil\<close> error.\<close>

fun IsErrUserAlreadyHasAccess :: "error option \<Rightarrow> bool" where
  "IsErrUserAlreadyHasAccess (Some (ErrUserAlreadyHasAccess _ _)) = True"
| "IsErrUserAlreadyHasAccess _ = False"

fun IsErrUserAlreadyHasNamespaceAccess :: "error option \<Rightarrow> bool" where
  "IsErrUserAlreadyHasNamespaceAccess (Some (ErrUserAlreadyHasNamespaceAccess _ _)) = True"
| "IsErrUserAlreadyHasNamespaceAccess _ = False"

text \<open>
  Modelled from the spec: \<open>Right.isValid\<close> lives in a file of the repository that is not
  part of the sources at hand. The spec: "\<open>Right.isValid()\<close> fails with InvalidRight when
  value is not one of 0, 1, 2".
\<close>

definition isValid :: "Right \<Rightarrow> error option" where
  "isValid r =
     (if r \<noteq> RightAdmin \<and> r \<noteq> RightRead \<and> r \<noteq> RightWrite then Some (ErrInvalidRight r)
      else None)"

section \<open>Principals: users and link shares\<close>

datatype SharingType = SharingTypeUnknown | SharingTypeWithoutPassword | SharingTypeWithPassword

record User =
  user_ID :: int64
  user_Name :: string
  user_Username :: string

record LinkSharing =
  share_ID :: int64
  share_Hash :: string
  share_Name :: string
  share_ListID :: int64
  share_Right :: Right
  share_SharingType :: SharingType
  share_Password :: string
  share_SharedByID :: int64

text \<open>
  \<open>web.Auth\<close> is an interface; the two types of the repository that implement it are
  \<open>*user.User\<close> and \<open>*LinkSharing\<close>. The type switch \<open>a.(*LinkSharing)\<close> is a case
  distinction on the constructor.
\<close>

datatype auth = AuthUser User | AuthLinkSharing LinkSharing

definition GetID :: "LinkSharing \<Rightarrow> int64" where
  "GetID share = share_ID share"

definition getUserID :: "LinkSharing \<Rightarrow> int64" where
  "getUserID share = share_ID share * (- 1)"

definition toUser :: "LinkSharing \<Rightarrow> User" where
  "toUser share =
     (let suffix = ''Link Share'';
          suffix = (if share_Name share \<noteq> [] then '' ('' @ suffix @ '')'' else suffix)
      in \<lparr> user_ID = getUserID share,
           user_Name = share_Name share @ suffix,
           user_Username = share_Name share \<rparr>)"

text \<open>\<open>Auth.GetID\<close> dispatches on the implementing type; a user's identity is its ID.\<close>

fun auth_GetID :: "auth \<Rightarrow> int64" where
  "auth_GetID (AuthUser u) = user_ID u"
| "auth_GetID (AuthLinkSharing share) = GetID share"

subsection \<open>Password verification of a link share\<close>

text \<open>
  \<open>bcrypt.CompareHashAndPassword\<close> belongs to an external library; it is a parameter
  \<open>cmp\<close> of the model, taking the stored hash and the supplied password and returning
  \<open>None\<close> for \<open>nil\<close>.
\<close>

definition VerifyLinkSharePassword ::
  "(string \<Rightarrow> string \<Rightarrow> bcrypt_error option) \<Rightarrow> LinkSharing \<Rightarrow> string \<Rightarrow> error option" where
  "VerifyLinkSharePassword cmp share password =
     (if password = [] then Some (ErrLinkSharePasswordRequired (share_ID share))
      else case cmp (share_Password share) password of
             Some err \<Rightarrow>
               (if err = ErrMismatchedHashAndPassword
                then Some (ErrLinkSharePasswordInvalid (share_ID share))
                else Some (ErrBcrypt err))
           | None \<Rightarrow> None)"

section \<open>Capability checks on sharing relations\<close>

record ListUser =
  lu_ID :: int64
  lu_Username :: string
  lu_UserID :: int64
  lu_ListID :: int64
  lu_Right :: Right

record TeamNamespace =
  tn_ID :: int64
  tn_TeamID :: int64
  tn_NamespaceID :: int64
  tn_Right :: Right

text \<open>
  \<open>List.IsAdmin\<close> and \<open>Namespace.IsAdmin\<close> are not among the sources at hand. The
  checks below take them as parameters: any function of the session, the id of the
  parent (the code builds \<open>List{ID: lu.ListID}\<close> and \<open>Namespace{ID: tn.NamespaceID}\<close>)
  and the principal, returning the pair \<open>(bool, error)\<close>.
\<close>

type_synonym 's admin_check = "'s \<Rightarrow> int64 \<Rightarrow> auth \<Rightarrow> bool \<times> error option"

definition canDoListUser :: "'s admin_check \<Rightarrow> ListUser \<Rightarrow> 's \<Rightarrow> auth \<Rightarrow> bool \<times> error option" where
  "canDoListUser list_IsAdmin lu s a =
     (case a of
        AuthLinkSharing _ \<Rightarrow> (False, None)
      | _ \<Rightarrow> list_IsAdmin s (lu_ListID lu) a)"

definition ListUser_CanCreate :: "'s admin_check \<Rightarrow> ListUser \<Rightarrow> 's \<Rightarrow> auth \<Rightarrow> bool \<times> error option" where
  "ListUser_CanCreate list_IsAdmin lu s a = canDoListUser list_IsAdmin lu s a"

definition ListUser_CanDelete :: "'s admin_check \<Rightarrow> ListUser \<Rightarrow> 's \<Rightarrow> auth \<Rightarrow> bool \<times> error option" where
  "ListUser_CanDelete list_IsAdmin lu s a = canDoListUser list_IsAdmin lu s a"

definition ListUser_CanUpdate :: "'s admin_check \<Rightarrow> ListUser \<Rightarrow> 's \<Rightarrow> auth \<Rightarrow> bool \<times> error option" where
  "ListUser_CanUpdate list_IsAdmin lu s a = canDoListUser list_IsAdmin lu s a"

definition TeamNamespace_CanCreate :: "'s admin_check \<Rightarrow> TeamNamespace \<Rightarrow> 's \<Rightarrow> auth \<Rightarrow> bool \<times> error option" where
  "TeamNamespace_CanCreate namespace_IsAdmin tn s a = namespace_IsAdmin s (tn_NamespaceID tn) a"

definition TeamNamespace_CanDelete :: "'s admin_check \<Rightarrow> TeamNamespace \<Rightarrow> 's \<Rightarrow> auth \<Rightarrow> bool \<times> error option" where
  "TeamNamespace_CanDelete namespace_IsAdmin tn s a = namespace_IsAdmin s (tn_NamespaceID tn) a"

definition TeamNamespace_CanUpdate :: "'s admin_check \<Rightarrow> TeamNamespace \<Rightarrow> 's \<Rightarrow> auth \<Rightarrow> bool \<times> error option" where
  "TeamNamespace_CanUpdate namespace_IsAdmin tn s a = namespace_IsAdmin s (tn_NamespaceID tn) a"

text \<open>
  Modelled from the spec: \<open>Namespace.IsAdmin\<close> is a method of the repository outside the
  sources at hand, and the checks of a team-namespace relation return its answer as it
  is. The spec: "a LinkSharing principal is never permitted (hard denial regardless of
  Right) to manage sharing relations"; a link share resolves to its right only as "an
  authenticated LinkSharing principal whose ListID matches", on a list, and "link
  shares never receive Admin even if stored Right says so"; "No match \<rightarrow> deny (false,
  no error)". What the resolution answers for a registered user (owner, user and team
  relations of the namespace) is the parameter \<open>user_IsAdmin\<close>.
\<close>

definition Namespace_IsAdmin ::
  "('s \<Rightarrow> int64 \<Rightarrow> User \<Rightarrow> bool \<times> error option) \<Rightarrow> 's admin_check" where
  "Namespace_IsAdmin user_IsAdmin s namespaceID a =
     (case a of
        AuthLinkSharing _ \<Rightarrow> (False, None)
      | AuthUser u \<Rightarrow> user_IsAdmin s namespaceID u)"

section \<open>Persistence: the tables behind the sharing relations\<close>

record List =
  list_ID :: int64
  list_OwnerID :: int64
  list_NamespaceID :: int64

record Namespace =
  ns_ID :: int64
  ns_OwnerID :: int64

record NamespaceUser =
  nu_ID :: int64
  nu_Username :: string
  nu_UserID :: int64
  nu_NamespaceID :: int64
  nu_Right :: Right

record TeamList =
  tl_ID :: int64
  tl_TeamID :: int64
  tl_ListID :: int64
  tl_Right :: Right

record TeamMember =
  tm_TeamID :: int64
  tm_UserID :: int64

datatype event =
    ListSharedWithUserEvent List User auth
  | NamespaceSharedWithUserEvent Namespace User auth

text \<open>
  The state a \<open>*xorm.Session\<close> gives access to: the rows of the tables the sharing
  relations read and write, the events dispatched so far, the lists whose last-updated
  column was touched, and the counter behind the auto-increment primary keys. The
  \<open>Created\<close> and \<open>Updated\<close> columns play no part in the operations below and are left out.
\<close>

record session =
  lists :: "List list"
  namespaces :: "Namespace list"
  users :: "User list"
  users_lists :: "ListUser list"
  users_namespaces :: "NamespaceUser list"
  team_lists :: "TeamList list"
  team_members :: "TeamMember list"
  dispatched :: "event list"
  touched :: "int64 list"
  autoincr :: int64

text \<open>
  Every call that goes to the database or to the event bus returns an \<open>error\<close> in Go.
  The parameter \<open>F\<close> says which kinds of call fail in the run at hand, so that each
  \<open>if err != nil\<close> of the source is a branch of the model.
\<close>

type_synonym faults = "db_op \<Rightarrow> bool"

text \<open>
  Modelled from the spec: \<open>GetListSimpleByID\<close>, \<open>GetNamespaceByID\<close>,
  \<open>user.GetUserByUsername\<close> and \<open>updateListLastUpdated\<close> are functions of the repository
  outside the sources at hand. The spec: Create "resolves the target user/team by
  name/id", NotFound is "list/namespace/team/user ... absent", and Create "touches the
  parent's last-updated timestamp".
\<close>

definition GetListSimpleByID :: "faults \<Rightarrow> session \<Rightarrow> int64 \<Rightarrow> error + List" where
  "GetListSimpleByID F s listID =
     (if F QGetList then Inl (ErrDatabase QGetList)
      else case find (\<lambda>l. list_ID l = listID) (lists s) of
             None \<Rightarrow> Inl (ErrListDoesNotExist listID)
           | Some l \<Rightarrow> Inr l)"

definition GetNamespaceByID :: "faults \<Rightarrow> session \<Rightarrow> int64 \<Rightarrow> error + Namespace" where
  "GetNamespaceByID F s nsID =
     (if F QGetNamespace then Inl (ErrDatabase QGetNamespace)
      else case find (\<lambda>n. ns_ID n = nsID) (namespaces s) of
             None \<Rightarrow> Inl (ErrNamespaceDoesNotExist nsID)
           | Some n \<Rightarrow> Inr n)"

definition GetUserByUsername :: "faults \<Rightarrow> session \<Rightarrow> string \<Rightarrow> error + User" where
  "GetUserByUsername F s username =
     (if F QGetUser then Inl (ErrDatabase QGetUser)
      else case find (\<lambda>u. user_Username u = username) (users s) of
             None \<Rightarrow> Inl (ErrUserDoesNotExist username)
           | Some u \<Rightarrow> Inr u)"

definition updateListLastUpdated :: "faults \<Rightarrow> session \<Rightarrow> List \<Rightarrow> error + session" where
  "updateListLastUpdated F s l =
     (if F QTouchList then Inl (ErrDatabase QTouchList)
      else Inr (s\<lparr>touched := touched s @ [list_ID l]\<rparr>))"

text \<open>\<open>s.Where("list_id = ? AND user_id = ?", ...).Get(&ListUser{})\<close>: is there such a row?\<close>

definition exists_ListUser :: "faults \<Rightarrow> session \<Rightarrow> int64 \<Rightarrow> int64 \<Rightarrow> error + bool" where
  "exists_ListUser F s listID userID =
     (if F QGetListUser then Inl (ErrDatabase QGetListUser)
      else Inr (list_ex (\<lambda>r. lu_ListID r = listID \<and> lu_UserID r = userID) (users_lists s)))"

definition exists_NamespaceUser :: "faults \<Rightarrow> session \<Rightarrow> int64 \<Rightarrow> int64 \<Rightarrow> error + bool" where
  "exists_NamespaceUser F s nsID userID =
     (if F QGetNamespaceUser then Inl (ErrDatabase QGetNamespaceUser)
      else Inr (list_ex (\<lambda>r. nu_NamespaceID r = nsID \<and> nu_UserID r = userID)
                  (users_namespaces s)))"

text \<open>\<open>s.Insert(row)\<close>: the row gets the next primary key and is appended to its table.\<close>

definition Insert_ListUser :: "faults \<Rightarrow> session \<Rightarrow> ListUser \<Rightarrow> error + ListUser \<times> session" where
  "Insert_ListUser F s lu =
     (if F QInsertListUser then Inl (ErrDatabase QInsertListUser)
      else let row = lu\<lparr>lu_ID := autoincr s\<rparr>
           in Inr (row, s\<lparr>users_lists := users_lists s @ [row], autoincr := autoincr s + 1\<rparr>))"

definition Insert_NamespaceUser ::
  "faults \<Rightarrow> session \<Rightarrow> NamespaceUser \<Rightarrow> error + NamespaceUser \<times> session" where
  "Insert_NamespaceUser F s nu =
     (if F QInsertNamespaceUser then Inl (ErrDatabase QInsertNamespaceUser)
      else let row = nu\<lparr>nu_ID := autoincr s\<rparr>
           in Inr (row, s\<lparr>users_namespaces := users_namespaces s @ [row],
                           autoincr := autoincr s + 1\<rparr>))"

definition Dispatch :: "faults \<Rightarrow> session \<Rightarrow> event \<Rightarrow> error + session" where
  "Dispatch F s ev =
     (if F QDispatchEvent then Inl (ErrDatabase QDispatchEvent)
      else Inr (s\<lparr>dispatched := dispatched s @ [ev]\<rparr>))"

subsection \<open>Creating a list-user and a namespace-user relation\<close>

text \<open>
  The Go methods change their receiver (\<open>lu.UserID\<close>, the primary key) and the session
  and return an error. The model returns all three: the error (\<open>None\<close> for \<open>nil\<close>), the
  receiver and the session as they are when the method returns.
\<close>

definition ListUser_Create ::
  "faults \<Rightarrow> session \<Rightarrow> auth \<Rightarrow> ListUser \<Rightarrow> error option \<times> ListUser \<times> session" where
  "ListUser_Create F s a lu =
     (case isValid (lu_Right lu) of
        Some err \<Rightarrow> (Some err, lu, s)
      | None \<Rightarrow>
     (case GetListSimpleByID F s (lu_ListID lu) of
        Inl err \<Rightarrow> (Some err, lu, s)
      | Inr l \<Rightarrow>
     (case GetUserByUsername F s (lu_Username lu) of
        Inl err \<Rightarrow> (Some err, lu, s)
      | Inr u \<Rightarrow>
     (let lu = lu\<lparr>lu_UserID := user_ID u\<rparr> in
      if list_OwnerID l = lu_UserID lu
      then (Some (ErrUserAlreadyHasAccess (lu_UserID lu) (lu_ListID lu)), lu, s)
      else
     (case exists_ListUser F s (lu_ListID lu) (lu_UserID lu) of
        Inl err \<Rightarrow> (Some err, lu, s)
      | Inr exist \<Rightarrow>
      if exist
      then (Some (ErrUserAlreadyHasAccess (lu_UserID lu) (lu_ListID lu)), lu, s)
      else
     (case Insert_ListUser F s lu of
        Inl err \<Rightarrow> (Some err, lu, s)
      | Inr (lu, s) \<Rightarrow>
     (case Dispatch F s (ListSharedWithUserEvent l u a) of
        Inl err \<Rightarrow> (Some err, lu, s)
      | Inr s \<Rightarrow>
     (case updateListLastUpdated F s l of
        Inl err \<Rightarrow> (Some err, lu, s)
      | Inr s \<Rightarrow> (None, lu, s)))))))))"

definition NamespaceUser_Create ::
  "faults \<Rightarrow> session \<Rightarrow> auth \<Rightarrow> NamespaceUser \<Rightarrow> error option \<times> NamespaceUser \<times> session" where
  "NamespaceUser_Create F s a nu0 =
     (let nu = nu0\<lparr>nu_ID := 0\<rparr> in
      case isValid (nu_Right nu) of
        Some err \<Rightarrow> (Some err, nu, s)
      | None \<Rightarrow>
     (case GetNamespaceByID F s (nu_NamespaceID nu) of
        Inl err \<Rightarrow> (Some err, nu, s)
      | Inr n \<Rightarrow>
     (case GetUserByUsername F s (nu_Username nu) of
        Inl err \<Rightarrow> (Some err, nu, s)
      | Inr u \<Rightarrow>
     (let nu = nu\<lparr>nu_UserID := user_ID u\<rparr> in
      if ns_OwnerID n = nu_UserID nu
      then (Some (ErrUserAlreadyHasNamespaceAccess (nu_UserID nu) (nu_NamespaceID nu)), nu, s)
      else
     (case exists_NamespaceUser F s (nu_NamespaceID nu) (nu_UserID nu) of
        Inl err \<Rightarrow> (Some err, nu, s)
      | Inr exist \<Rightarrow>
      if exist
      then (Some (ErrUserAlreadyHasNamespaceAccess (nu_UserID nu) (nu_NamespaceID nu)), nu, s)
      else
     (case Insert_NamespaceUser F s nu of
        Inl err \<Rightarrow> (Some err, nu, s)
      | Inr (nu, s) \<Rightarrow>
     (case Dispatch F s (NamespaceSharedWithUserEvent n u a) of
        Inl err \<Rightarrow> (Some err, nu, s)
      | Inr s \<Rightarrow> (None, nu, s))))))))"

text \<open>A user reaches a list through a team when some team of the user is shared the list.\<close>

definition has_team_access :: "session \<Rightarrow> int64 \<Rightarrow> int64 \<Rightarrow> bool" where
  "has_team_access s listID userID =
     list_ex (\<lambda>tl. tl_ListID tl = listID \<and>
                list_ex (\<lambda>tm. tm_TeamID tm = tl_TeamID tl \<and> tm_UserID tm = userID)
                  (team_members s))
       (team_lists s)"

subsection \<open>Concrete data for the examples\<close>

definition demo_cmp :: "string \<Rightarrow> string \<Rightarrow> bcrypt_error option" where
  "demo_cmp h p = (if h = ''$2a$'' @ p then None else Some ErrMismatchedHashAndPassword)"

definition demo_share :: LinkSharing where
  "demo_share = \<lparr> share_ID = 5, share_Hash = ''testWithPassword'', share_Name = [],
     share_ListID = 1, share_Right = RightAdmin, share_SharingType = SharingTypeWithPassword,
     share_Password = ''$2a$1234'', share_SharedByID = 1 \<rparr>"

definition demo_user :: "int64 \<Rightarrow> string \<Rightarrow> User" where
  "demo_user i n = \<lparr> user_ID = i, user_Name = n, user_Username = n \<rparr>"

definition demo_session :: session where
  "demo_session = \<lparr>
     lists = [\<lparr> list_ID = 1, list_OwnerID = 1, list_NamespaceID = 1 \<rparr>,
              \<lparr> list_ID = 2, list_OwnerID = 3, list_NamespaceID = 1 \<rparr>,
              \<lparr> list_ID = 3, list_OwnerID = 3, list_NamespaceID = 1 \<rparr>],
     namespaces = [\<lparr> ns_ID = 1, ns_OwnerID = 1 \<rparr>, \<lparr> ns_ID = 2, ns_OwnerID = 3 \<rparr>,
                   \<lparr> ns_ID = 3, ns_OwnerID = 3 \<rparr>],
     users = [demo_user 1 ''user1'', demo_user 2 ''user2'', demo_user 3 ''user3''],
     users_lists = [\<lparr> lu_ID = 1, lu_Username = [], lu_UserID = 1, lu_ListID = 3,
                      lu_Right = RightRead \<rparr>],
     users_namespaces = [\<lparr> nu_ID = 1, nu_Username = [], nu_UserID = 1, nu_NamespaceID = 3,
                           nu_Right = RightRead \<rparr>],
     team_lists = [\<lparr> tl_ID = 1, tl_TeamID = 7, tl_ListID = 2, tl_Right = RightWrite \<rparr>],
     team_members = [\<lparr> tm_TeamID = 7, tm_UserID = 1 \<rparr>],
     dispatched = [],
     touched = [],
     autoincr = 2 \<rparr>"

definition no_faults :: faults where
  "no_faults = (\<lambda>_. False)"

definition new_ListUser :: "string \<Rightarrow> int64 \<Rightarrow> ListUser" where
  "new_ListUser n l = \<lparr> lu_ID = 0, lu_Username = n, lu_UserID = 0, lu_ListID = l,
     lu_Right = RightRead \<rparr>"

definition new_NamespaceUser :: "string \<Rightarrow> int64 \<Rightarrow> NamespaceUser" where
  "new_NamespaceUser n l = \<lparr> nu_ID = 0, nu_Username = n, nu_UserID = 0, nu_NamespaceID = l,
     nu_Right = RightRead \<rparr>"

section \<open>Strings, decimal numbers and time\<close>

text \<open>
  The functions of this section belong to Go's standard library (\<open>strconv\<close>, \<open>strings\<close>,
  \<open>regexp\<close>, \<open>time\<close>), not to the repository. They are modelled as far as the CalDAV
  code uses them.
\<close>

abbreviation LF :: char where "LF \<equiv> CHR 0x0A"
abbreviation CR :: char where "CR \<equiv> CHR 0x0D"
abbreviation BSL :: char where "BSL \<equiv> CHR 0x5C"

subsection \<open>Decimal digits\<close>

definition isDigitChar :: "char \<Rightarrow> bool" where
  "isDigitChar c = (48 \<le> (of_char c :: nat) \<and> (of_char c :: nat) \<le> 57)"

definition digitVal :: "char \<Rightarrow> nat" where
  "digitVal c = of_char c - 48"

definition digitChar :: "nat \<Rightarrow> char" where
  "digitChar n =
     (if n = 0 then CHR ''0'' else if n = 1 then CHR ''1'' else if n = 2 then CHR ''2''
      else if n = 3 then CHR ''3'' else if n = 4 then CHR ''4'' else if n = 5 then CHR ''5''
      else if n = 6 then CHR ''6'' else if n = 7 then CHR ''7'' else if n = 8 then CHR ''8''
      else CHR ''9'')"

text \<open>The decimal form of a natural number, most significant digit first.\<close>

fun digits :: "nat \<Rightarrow> string" where
  "digits n = (if n < 10 then [digitChar n] else digits (n div 10) @ [digitChar (n mod 10)])"

declare digits.simps [simp del]

definition digitsVal :: "string \<Rightarrow> nat" where
  "digitsVal s = foldl (\<lambda>acc c. acc * 10 + digitVal c) 0 s"

text \<open>\<open>strconv.Itoa\<close> and \<open>strconv.FormatInt(_, 10)\<close>.\<close>

definition Itoa :: "int \<Rightarrow> string" where
  "Itoa i = (if i < 0 then CHR ''-'' # digits (nat (- i)) else digits (nat i))"

text \<open>
  \<open>strconv.ParseInt(s, 10, 64)\<close>: an optional sign, then one or more decimal digits and
  nothing else; a value outside the 64-bit range is an error.
\<close>

datatype num_error = ErrSyntax | ErrRange

definition ParseInt :: "string \<Rightarrow> num_error + int64" where
  "ParseInt s =
     (let neg = (s \<noteq> [] \<and> hd s = CHR ''-'');
          body = (if s \<noteq> [] \<and> (hd s = CHR ''-'' \<or> hd s = CHR ''+'') then tl s else s)
      in if body = [] \<or> \<not> list_all isDigitChar body then Inl ErrSyntax
         else let v = (if neg then - int (digitsVal body) else int (digitsVal body))
              in if v < - (2 ^ 63) \<or> 2 ^ 63 \<le> v then Inl ErrRange else Inr (word_of_int v))"

text \<open>
  \<open>appendInt\<close> of package \<open>time\<close>: the decimal form, zero-padded to \<open>width\<close> digits, after
  a minus sign for a negative number.
\<close>

definition appendInt :: "int \<Rightarrow> nat \<Rightarrow> string" where
  "appendInt x width =
     (let u = nat \<bar>x\<bar>; ds = digits u
      in (if x < 0 then ''-'' else []) @ replicate (width - length ds) CHR ''0'' @ ds)"

subsection \<open>Replacing in strings\<close>

text \<open>
  \<open>regexp.MustCompile(`\r?\n`).ReplaceAllString(s, "\\n")\<close>: every line break, with
  the carriage return before it when there is one, becomes a backslash and the letter n.
\<close>

fun escapeLineBreaks :: "string \<Rightarrow> string" where
  "escapeLineBreaks [] = []"
| "escapeLineBreaks [c] = (if c = LF then [BSL, CHR ''n''] else [c])"
| "escapeLineBreaks (c # d # cs) =
     (if c = CR \<and> d = LF then [BSL, CHR ''n''] @ escapeLineBreaks cs
      else if c = LF then [BSL, CHR ''n''] @ escapeLineBreaks (d # cs)
      else c # escapeLineBreaks (d # cs))"

text \<open>
  \<open>strings.ReplaceAll(s, old, new)\<close> for a pattern \<open>old\<close> of two bytes \<open>a\<close>, \<open>b\<close>, the
  only kind the CalDAV code uses: matches are replaced from left to right and do not
  overlap.
\<close>

fun ReplaceAll2 :: "char \<Rightarrow> char \<Rightarrow> string \<Rightarrow> string \<Rightarrow> string" where
  "ReplaceAll2 a b new [] = []"
| "ReplaceAll2 a b new [c] = [c]"
| "ReplaceAll2 a b new (c # d # cs) =
     (if c = a \<and> d = b then new @ ReplaceAll2 a b new cs
      else c # ReplaceAll2 a b new (d # cs))"

subsection \<open>Time\<close>

text \<open>
  A \<open>time.Time\<close> is an instant with nanosecond precision. The model names the instant
  by its calendar fields in UTC (proleptic Gregorian calendar), which is what
  \<open>ts.In(time.UTC)\<close> reads; the location a Go value carries besides plays no part in the
  code below. The zero value \<open>time.Time{}\<close> is 1 January of year 1, 00:00:00 UTC.
\<close>

record Time =
  t_year :: int
  t_month :: nat
  t_day :: nat
  t_hour :: nat
  t_minute :: nat
  t_second :: nat
  t_nsec :: nat

definition zeroTime :: Time where
  "zeroTime = \<lparr> t_year = 1, t_month = 1, t_day = 1, t_hour = 0, t_minute = 0, t_second = 0,
     t_nsec = 0 \<rparr>"

definition IsZero :: "Time \<Rightarrow> bool" where
  "IsZero t = (t = zeroTime)"

definition isLeap :: "int \<Rightarrow> bool" where
  "isLeap y = (y mod 4 = 0 \<and> (y mod 100 \<noteq> 0 \<or> y mod 400 = 0))"

definition daysIn :: "nat \<Rightarrow> int \<Rightarrow> nat" where
  "daysIn m y =
     (if m = 2 then (if isLeap y then 29 else 28)
      else if m = 4 \<or> m = 6 \<or> m = 9 \<or> m = 11 then 30 else 31)"

text \<open>The records that name an instant.\<close>

definition valid_time :: "Time \<Rightarrow> bool" where
  "valid_time t =
     (1 \<le> t_month t \<and> t_month t \<le> 12 \<and> 1 \<le> t_day t \<and>
      t_day t \<le> daysIn (t_month t) (t_year t) \<and>
      t_hour t < 24 \<and> t_minute t < 60 \<and> t_second t < 60 \<and> t_nsec t < 1000000000)"

text \<open>Days between 1 January 1970 and a calendar date.\<close>

definition daysFromCivil :: "int \<Rightarrow> nat \<Rightarrow> nat \<Rightarrow> int" where
  "daysFromCivil y m d =
     (let y' = (if m \<le> 2 then y - 1 else y);
          era = y' div 400;
          yoe = y' - era * 400;
          mp = (if m > 2 then int m - 3 else int m + 9);
          doy = (153 * mp + 2) div 5 + int d - 1;
          doe = yoe * 365 + yoe div 4 - yoe div 100 + doy
      in era * 146097 + doe - 719468)"

text \<open>The calendar date a number of days after 1 January 1970.\<close>

definition civilFromDays :: "int \<Rightarrow> int \<times> nat \<times> nat" where
  "civilFromDays z0 =
     (let z = z0 + 719468;
          era = z div 146097;
          doe = z - era * 146097;
          yoe = (doe - doe div 1460 + doe div 36524 - doe div 146096) div 365;
          y = yoe + era * 400;
          doy = doe - (365 * yoe + yoe div 4 - yoe div 100);
          mp = (5 * doy + 2) div 153;
          d = doy - (153 * mp + 2) div 5 + 1;
          m = (if mp < 10 then mp + 3 else mp - 9)
      in (if m \<le> 2 then y + 1 else y, nat m, nat d))"

text \<open>\<open>t.Unix()\<close>: seconds since 1 January 1970 UTC.\<close>

definition Unix :: "Time \<Rightarrow> int" where
  "Unix t = daysFromCivil (t_year t) (t_month t) (t_day t) * 86400
            + int (t_hour t) * 3600 + int (t_minute t) * 60 + int (t_second t)"

text \<open>A \<open>time.Duration\<close> is a number of nanoseconds in an \<open>int64\<close>.\<close>

type_synonym Duration = int

definition fromUnixNano :: "int \<Rightarrow> Time" where
  "fromUnixNano n =
     (let secs = n div 1000000000; ns = n mod 1000000000;
          days = secs div 86400; rem = secs mod 86400;
          (y, m, d) = civilFromDays days
      in \<lparr> t_year = y, t_month = m, t_day = d, t_hour = nat (rem div 3600),
           t_minute = nat (rem mod 3600 div 60), t_second = nat (rem mod 60),
           t_nsec = nat ns \<rparr>)"

definition UnixNano :: "Time \<Rightarrow> int" where
  "UnixNano t = Unix t * 1000000000 + int (t_nsec t)"

definition Add :: "Time \<Rightarrow> Duration \<Rightarrow> Time" where
  "Add t d = fromUnixNano (UnixNano t + d)"

text \<open>\<open>t.Sub(u)\<close> saturates at the largest and smallest duration.\<close>

definition Sub :: "Time \<Rightarrow> Time \<Rightarrow> Duration" where
  "Sub t u = max (- (2 ^ 63)) (min (2 ^ 63 - 1) (UnixNano t - UnixNano u))"

text \<open>
  The layouts the CalDAV code formats and parses with. In a layout, \<open>2006\<close> is the year
  in four digits, \<open>01\<close>, \<open>02\<close>, \<open>04\<close>, \<open>05\<close> are month, day, minute and second in two
  digits, \<open>15\<close> is the hour; \<open>T\<close> and a \<open>Z\<close> that no offset follows stand for themselves.
\<close>

datatype layout =
    DateFormat           \<comment> \<open>\<open>20060102T150405\<close>\<close>
  | DateFormatZ          \<comment> \<open>\<open>20060102T150405Z\<close>\<close>
  | DateOnly             \<comment> \<open>\<open>20060102\<close>\<close>
  | DayOfMonth           \<comment> \<open>\<open>02\<close>\<close>

definition Format :: "layout \<Rightarrow> Time \<Rightarrow> string" where
  "Format l t =
     (let date = appendInt (t_year t) 4 @ appendInt (int (t_month t)) 2
                 @ appendInt (int (t_day t)) 2;
          clock = appendInt (int (t_hour t)) 2 @ appendInt (int (t_minute t)) 2
                  @ appendInt (int (t_second t)) 2
      in case l of
           DateFormat \<Rightarrow> date @ ''T'' @ clock
         | DateFormatZ \<Rightarrow> date @ ''T'' @ clock @ ''Z''
         | DateOnly \<Rightarrow> date
         | DayOfMonth \<Rightarrow> appendInt (int (t_day t)) 2)"

text \<open>
  \<open>time.Parse\<close>. \<open>getnum\<close> reads a number of two digits, or of one digit when the field
  is not of fixed width and no second digit follows. The year is exactly four digits.
  After the seconds the input may carry a fraction (a period or comma and digits) that
  the layout does not mention. Month, hour, minute and second are checked against their
  ranges, the day against the length of the month, and nothing may follow the last
  field.
\<close>

datatype parse_error = ErrBad | ErrOutOfRange | ErrExtraText

definition getnum :: "string \<Rightarrow> bool \<Rightarrow> parse_error + nat \<times> string" where
  "getnum s fixed =
     (case s of
        [] \<Rightarrow> Inl ErrBad
      | c # cs \<Rightarrow>
          if \<not> isDigitChar c then Inl ErrBad
          else (case cs of
                  [] \<Rightarrow> if fixed then Inl ErrBad else Inr (digitVal c, cs)
                | d # ds \<Rightarrow>
                    if \<not> isDigitChar d
                    then (if fixed then Inl ErrBad else Inr (digitVal c, cs))
                    else Inr (digitVal c * 10 + digitVal d, ds)))"

definition parseYear :: "string \<Rightarrow> parse_error + int \<times> string" where
  "parseYear s =
     (if length s < 4 \<or> \<not> list_all isDigitChar (take 4 s) then Inl ErrBad
      else Inr (int (digitsVal (take 4 s)), drop 4 s))"

definition skipChar :: "char \<Rightarrow> string \<Rightarrow> parse_error + string" where
  "skipChar p s = (case s of [] \<Rightarrow> Inl ErrBad | c # cs \<Rightarrow> if c = p then Inr cs else Inl ErrBad)"

text \<open>The fraction after the seconds: at most nine digits count, the others are dropped.\<close>

definition parseFraction :: "string \<Rightarrow> nat \<times> string" where
  "parseFraction s =
     (case s of
        c # d # ds \<Rightarrow>
          if (c = CHR ''.'' \<or> c = CHR '','') \<and> isDigitChar d
          then (let frac = takeWhile isDigitChar (d # ds);
                    used = take 9 frac
                in (digitsVal used * 10 ^ (9 - length used), dropWhile isDigitChar (d # ds)))
          else (0, s)
      | _ \<Rightarrow> (0, s))"

definition parseDate :: "string \<Rightarrow> parse_error + (int \<times> nat \<times> nat) \<times> string" where
  "parseDate s =
     (case parseYear s of Inl e \<Rightarrow> Inl e | Inr (y, s1) \<Rightarrow>
      case getnum s1 True of Inl e \<Rightarrow> Inl e | Inr (m, s2) \<Rightarrow>
      if m = 0 \<or> 12 < m then Inl ErrOutOfRange else
      case getnum s2 True of Inl e \<Rightarrow> Inl e | Inr (d, s3) \<Rightarrow>
      Inr ((y, m, d), s3))"

definition parseClock :: "string \<Rightarrow> parse_error + (nat \<times> nat \<times> nat \<times> nat) \<times> string" where
  "parseClock s =
     (case getnum s False of Inl e \<Rightarrow> Inl e | Inr (h, s1) \<Rightarrow>
      if 24 \<le> h then Inl ErrOutOfRange else
      case getnum s1 True of Inl e \<Rightarrow> Inl e | Inr (mi, s2) \<Rightarrow>
      if 60 \<le> mi then Inl ErrOutOfRange else
      case getnum s2 True of Inl e \<Rightarrow> Inl e | Inr (sec, s3) \<Rightarrow>
      if 60 \<le> sec then Inl ErrOutOfRange else
      case parseFraction s3 of (ns, s4) \<Rightarrow>
      Inr ((h, mi, sec, ns), s4))"

definition finishParse :: "int \<times> nat \<times> nat \<Rightarrow> nat \<times> nat \<times> nat \<times> nat \<Rightarrow> string \<Rightarrow> parse_error + Time" where
  "finishParse date clock rest =
     (case (date, clock) of ((y, m, d), (h, mi, sec, ns)) \<Rightarrow>
        if rest \<noteq> [] then Inl ErrExtraText
        else if d < 1 \<or> daysIn m y < d then Inl ErrOutOfRange
        else Inr \<lparr> t_year = y, t_month = m, t_day = d, t_hour = h, t_minute = mi,
                   t_second = sec, t_nsec = ns \<rparr>)"

definition Parse :: "layout \<Rightarrow> string \<Rightarrow> parse_error + Time" where
  "Parse l s =
     (case l of
        DateOnly \<Rightarrow>
          (case parseDate s of Inl e \<Rightarrow> Inl e | Inr (date, rest) \<Rightarrow>
           finishParse date (0, 0, 0, 0) rest)
      | DayOfMonth \<Rightarrow>
          (case getnum s True of Inl e \<Rightarrow> Inl e | Inr (d, rest) \<Rightarrow>
           finishParse (0, 1, d) (0, 0, 0, 0) rest)
      | DateFormat \<Rightarrow>
          (case parseDate s of Inl e \<Rightarrow> Inl e | Inr (date, s1) \<Rightarrow>
           case skipChar CHR ''T'' s1 of Inl e \<Rightarrow> Inl e | Inr s2 \<Rightarrow>
           case parseClock s2 of Inl e \<Rightarrow> Inl e | Inr (clock, rest) \<Rightarrow>
           finishParse date clock rest)
      | DateFormatZ \<Rightarrow>
          (case parseDate s of Inl e \<Rightarrow> Inl e | Inr (date, s1) \<Rightarrow>
           case skipChar CHR ''T'' s1 of Inl e \<Rightarrow> Inl e | Inr s2 \<Rightarrow>
           case parseClock s2 of Inl e \<Rightarrow> Inl e | Inr (clock, s3) \<Rightarrow>
           case skipChar CHR ''Z'' s3 of Inl e \<Rightarrow> Inl e | Inr rest \<Rightarrow>
           finishParse date clock rest))"

section \<open>The CalDAV codec\<close>

datatype TaskRepeatMode = TaskRepeatModeDefault | TaskRepeatModeMonth | TaskRepeatModeFromCurrentDate

record Todo =
  todo_Timestamp :: Time
  todo_UID :: string
  todo_Summary :: string
  todo_Description :: string
  todo_Completed :: Time
  todo_Organizer :: "User option"
  todo_Priority :: int64
  todo_RelatedToUID :: string
  todo_Color :: string
  todo_Start :: Time
  todo_End :: Time
  todo_DueDate :: Time
  todo_Duration :: Duration
  todo_RepeatAfter :: int64
  todo_RepeatMode :: TaskRepeatMode
  todo_Created :: Time
  todo_Updated :: Time

record Config =
  cfg_Name :: string
  cfg_ProdID :: string
  cfg_Color :: string

text \<open>The fields of \<open>models.Task\<close> that the codec reads and writes.\<close>

record Task =
  task_UID :: string
  task_Title :: string
  task_Description :: string
  task_Done :: bool
  task_DoneAt :: Time
  task_Priority :: int64
  task_DueDate :: Time
  task_StartDate :: Time
  task_EndDate :: Time
  task_Created :: Time
  task_Updated :: Time

text \<open>
  What the codec calls and the sources at hand do not define: \<open>utils.Sha256\<close>, the
  priority mappings \<open>mapPriorityToCaldav\<close> and \<open>parseVTODOPriority\<close>,
  \<open>time.ParseDuration\<close> (its error is dropped by the caller, so the parameter returns
  the duration alone) and the iCalendar reader \<open>ics.ParseCalendar\<close> of an external
  library, which returns the components of the calendar, each with its properties as
  pairs of IANA token and value, or fails. \<open>formatDuration\<close> is part of the sources,
  but computes in \<open>float64\<close> and prints with \<open>strconv.FormatFloat\<close>; the digits it
  prints are left to a parameter as well.
\<close>

type_synonym property = "string \<times> string"

record deps =
  Sha256 :: "string \<Rightarrow> string"
  formatDuration :: "Duration \<Rightarrow> string"
  mapPriorityToCaldav :: "int64 \<Rightarrow> int64"
  parseVTODOPriority :: "int64 \<Rightarrow> int64"
  ParseDuration :: "string \<Rightarrow> Duration"
  ParseCalendar :: "string \<Rightarrow> string + property list list"

subsection \<open>Serializing\<close>

definition getCaldavColor :: "string \<Rightarrow> string" where
  "getCaldavColor color0 =
     (if color0 = [] then []
      else let color = (if \<not> prefix ''#'' color0 then ''#'' @ color0 else color0);
               color = color @ ''FF''
           in [LF] @ ''X-APPLE-CALENDAR-COLOR:'' @ color @
              [LF] @ ''X-OUTLOOK-COLOR:'' @ color @
              [LF] @ ''X-FUNAMBOL-COLOR:'' @ color)"

definition makeCalDavTimeFromTimeStamp :: "Time \<Rightarrow> string" where
  "makeCalDavTimeFromTimeStamp ts = Format DateFormat ts @ ''Z''"

text \<open>
  The loop body of \<open>ParseTodos\<close> first gives a todo without UID a generated one, then
  appends the text of the todo.
\<close>

definition fillUID :: "deps \<Rightarrow> Todo \<Rightarrow> Todo" where
  "fillUID D t =
     (if todo_UID t = []
      then t\<lparr>todo_UID := makeCalDavTimeFromTimeStamp (todo_Timestamp t) @ Sha256 D (todo_Summary t)\<rparr>
      else t)"

definition todoText :: "deps \<Rightarrow> Todo \<Rightarrow> string" where
  "todoText D t =
     ([LF] @ ''BEGIN:VTODO'' @
      [LF] @ ''UID:'' @ todo_UID t @
      [LF] @ ''DTSTAMP:'' @ makeCalDavTimeFromTimeStamp (todo_Timestamp t) @
      [LF] @ ''SUMMARY:'' @ todo_Summary t @ getCaldavColor (todo_Color t)) @
     (if Unix (todo_Start t) > 0
      then [LF] @ ''DTSTART:'' @ makeCalDavTimeFromTimeStamp (todo_Start t) @
           (if todo_Duration t \<noteq> 0 \<and> Unix (todo_DueDate t) = 0
            then [LF] @ ''DURATION:PT'' @ formatDuration D (todo_Duration t)
            else [])
      else []) @
     (if Unix (todo_End t) > 0
      then [LF] @ ''DTEND:'' @ makeCalDavTimeFromTimeStamp (todo_End t)
      else []) @
     (if todo_Description t \<noteq> []
      then [LF] @ ''DESCRIPTION:'' @ escapeLineBreaks (todo_Description t)
      else []) @
     (if Unix (todo_Completed t) > 0
      then [LF] @ ''COMPLETED:'' @ makeCalDavTimeFromTimeStamp (todo_Completed t) @
           [LF] @ ''STATUS:COMPLETED''
      else []) @
     (case todo_Organizer t of
        Some organizer \<Rightarrow> [LF] @ ''ORGANIZER;CN=:'' @ user_Username organizer
      | None \<Rightarrow> []) @
     (if todo_RelatedToUID t \<noteq> []
      then [LF] @ ''RELATED-TO:'' @ todo_RelatedToUID t
      else []) @
     (if Unix (todo_DueDate t) > 0
      then [LF] @ ''DUE:'' @ makeCalDavTimeFromTimeStamp (todo_DueDate t)
      else []) @
     (if Unix (todo_Created t) > 0
      then [LF] @ ''CREATED:'' @ makeCalDavTimeFromTimeStamp (todo_Created t)
      else []) @
     (if todo_Priority t \<noteq> 0
      then [LF] @ ''PRIORITY:'' @ Itoa (sint (mapPriorityToCaldav D (todo_Priority t)))
      else []) @
     (if 0 <s todo_RepeatAfter t \<or> todo_RepeatMode t = TaskRepeatModeMonth
      then (if todo_RepeatMode t = TaskRepeatModeMonth
            then [LF] @ ''RRULE:FREQ=MONTHLY;BYMONTHDAY='' @ Format DayOfMonth (todo_DueDate t)
            else [LF] @ ''RRULE:FREQ=SECONDLY;INTERVAL='' @ Itoa (sint (todo_RepeatAfter t)))
      else []) @
     [LF] @ ''LAST-MODIFIED:'' @ makeCalDavTimeFromTimeStamp (todo_Updated t) @
     [LF] @ ''END:VTODO''"

definition ParseTodos :: "deps \<Rightarrow> Config \<Rightarrow> Todo list \<Rightarrow> string" where
  "ParseTodos D config todos =
     ''BEGIN:VCALENDAR'' @
     [LF] @ ''VERSION:2.0'' @
     [LF] @ ''METHOD:PUBLISH'' @
     [LF] @ ''X-PUBLISHED-TTL:PT4H'' @
     [LF] @ ''X-WR-CALNAME:'' @ cfg_Name config @
     [LF] @ ''PRODID:-//'' @ cfg_ProdID config @ ''//EN'' @ getCaldavColor (cfg_Color config) @
     concat (map (\<lambda>t. todoText D (fillUID D t)) todos) @
     [LF] @ ''END:VCALENDAR''"

text \<open>
  The content lines of a todo as the serializer writes them between \<open>BEGIN:VTODO\<close> and
  \<open>END:VTODO\<close>: the property name, its parameters (only \<open>ORGANIZER\<close> has one) and the
  value after the colon.
\<close>

type_synonym content_line = "string \<times> string \<times> string"

definition plain :: "string \<Rightarrow> string \<Rightarrow> content_line" where
  "plain name v = (name, [], v)"

definition colorLines :: "string \<Rightarrow> content_line list" where
  "colorLines color0 =
     (if color0 = [] then []
      else let color = (if \<not> prefix ''#'' color0 then ''#'' @ color0 else color0) @ ''FF''
           in [plain ''X-APPLE-CALENDAR-COLOR'' color, plain ''X-OUTLOOK-COLOR'' color,
               plain ''X-FUNAMBOL-COLOR'' color])"

definition headLines :: "Todo \<Rightarrow> content_line list" where
  "headLines t =
     [plain ''UID'' (todo_UID t),
      plain ''DTSTAMP'' (makeCalDavTimeFromTimeStamp (todo_Timestamp t)),
      plain ''SUMMARY'' (todo_Summary t)]"

definition startLines :: "deps \<Rightarrow> Todo \<Rightarrow> content_line list" where
  "startLines D t =
     (if Unix (todo_Start t) > 0
      then [plain ''DTSTART'' (makeCalDavTimeFromTimeStamp (todo_Start t))] @
           (if todo_Duration t \<noteq> 0 \<and> Unix (todo_DueDate t) = 0
            then [plain ''DURATION'' (''PT'' @ formatDuration D (todo_Duration t))]
            else [])
      else [])"

definition endLines :: "Todo \<Rightarrow> content_line list" where
  "endLines t =
     (if Unix (todo_End t) > 0
      then [plain ''DTEND'' (makeCalDavTimeFromTimeStamp (todo_End t))]
      else [])"

definition descriptionLines :: "Todo \<Rightarrow> content_line list" where
  "descriptionLines t =
     (if todo_Description t \<noteq> []
      then [plain ''DESCRIPTION'' (escapeLineBreaks (todo_Description t))]
      else [])"

definition completedLines :: "Todo \<Rightarrow> content_line list" where
  "completedLines t =
     (if Unix (todo_Completed t) > 0
      then [plain ''COMPLETED'' (makeCalDavTimeFromTimeStamp (todo_Completed t)),
            plain ''STATUS'' ''COMPLETED'']
      else [])"

definition organizerLines :: "Todo \<Rightarrow> content_line list" where
  "organizerLines t =
     (case todo_Organizer t of
        Some organizer \<Rightarrow> [(''ORGANIZER'', '';CN='', user_Username organizer)]
      | None \<Rightarrow> [])"

definition relatedLines :: "Todo \<Rightarrow> content_line list" where
  "relatedLines t =
     (if todo_RelatedToUID t \<noteq> []
      then [plain ''RELATED-TO'' (todo_RelatedToUID t)]
      else [])"

definition dueLines :: "Todo \<Rightarrow> content_line list" where
  "dueLines t =
     (if Unix (todo_DueDate t) > 0
      then [plain ''DUE'' (makeCalDavTimeFromTimeStamp (todo_DueDate t))]
      else [])"

definition createdLines :: "Todo \<Rightarrow> content_line list" where
  "createdLines t =
     (if Unix (todo_Created t) > 0
      then [plain ''CREATED'' (makeCalDavTimeFromTimeStamp (todo_Created t))]
      else [])"

definition priorityLines :: "deps \<Rightarrow> Todo \<Rightarrow> content_line list" where
  "priorityLines D t =
     (if todo_Priority t \<noteq> 0
      then [plain ''PRIORITY'' (Itoa (sint (mapPriorityToCaldav D (todo_Priority t))))]
      else [])"

definition repeatLines :: "Todo \<Rightarrow> content_line list" where
  "repeatLines t =
     (if 0 <s todo_RepeatAfter t \<or> todo_RepeatMode t = TaskRepeatModeMonth
      then (if todo_RepeatMode t = TaskRepeatModeMonth
            then [plain ''RRULE''
                    (''FREQ=MONTHLY;BYMONTHDAY='' @ Format DayOfMonth (todo_DueDate t))]
            else [plain ''RRULE''
                    (''FREQ=SECONDLY;INTERVAL='' @ Itoa (sint (todo_RepeatAfter t)))])
      else [])"

definition todoLines :: "deps \<Rightarrow> Todo \<Rightarrow> content_line list" where
  "todoLines D t =
     headLines t @ colorLines (todo_Color t) @ startLines D t @ endLines t @
     descriptionLines t @ completedLines t @ organizerLines t @ relatedLines t @
     dueLines t @ createdLines t @ priorityLines D t @ repeatLines t @
     [plain ''LAST-MODIFIED'' (makeCalDavTimeFromTimeStamp (todo_Updated t))]"


text \<open>What a reader of content lines makes of a line: the token and the value.\<close>

definition lineProperty :: "content_line \<Rightarrow> property" where
  "lineProperty l = (case l of (name, params, v) \<Rightarrow> (name, v))"

definition todoProperties :: "deps \<Rightarrow> Todo \<Rightarrow> property list" where
  "todoProperties D t = map lineProperty (todoLines D t)"

text \<open>
  \<open>GetCaldavTodosForTasks\<close> makes a todo of each task of a list and serializes them.
  The fields of the todo that the literal leaves out have Go's zero values.
\<close>

definition todoOfTask :: "Task \<Rightarrow> Todo" where
  "todoOfTask t =
     (let duration = Sub (task_EndDate t) (task_StartDate t)
      in \<lparr> todo_Timestamp = task_Updated t,
           todo_UID = task_UID t,
           todo_Summary = task_Title t,
           todo_Description = task_Description t,
           todo_Completed = task_DoneAt t,
           todo_Organizer = None,
           todo_Priority = task_Priority t,
           todo_RelatedToUID = [],
           todo_Color = [],
           todo_Start = task_StartDate t,
           todo_End = task_EndDate t,
           todo_DueDate = task_DueDate t,
           todo_Duration = duration,
           todo_RepeatAfter = 0,
           todo_RepeatMode = TaskRepeatModeDefault,
           todo_Created = task_Created t,
           todo_Updated = task_Updated t \<rparr>)"

definition GetCaldavTodosForTasks :: "deps \<Rightarrow> string \<Rightarrow> Task list \<Rightarrow> string" where
  "GetCaldavTodosForTasks D listTitle listTasks =
     ParseTodos D \<lparr> cfg_Name = listTitle, cfg_ProdID = ''Vikunja Todo App'', cfg_Color = [] \<rparr>
       (map todoOfTask listTasks)"

subsection \<open>Deserializing\<close>

definition caldavLayout :: "string \<Rightarrow> layout" where
  "caldavLayout tstring =
     (let format = DateFormat;
          format = (if suffix ''Z'' tstring then DateFormatZ else format);
          format = (if length tstring = 8 then DateOnly else format)
      in format)"

definition caldavTimeToTimestamp :: "string \<Rightarrow> Time" where
  "caldavTimeToTimestamp tstring =
     (if tstring = [] then zeroTime
      else case Parse (caldavLayout tstring) tstring of
             Inl err \<Rightarrow> zeroTime
           | Inr t \<Rightarrow> t)"

text \<open>
  The result of \<open>ParseTaskFromVTODO\<close>: a task, an error, or the run-time panic of
  \<open>parsed.Components[0]\<close> on a calendar without components.
\<close>

datatype vtodo_error = ErrCalendar string | ErrPriority num_error | PanicNoComponent

text \<open>The map \<open>task\<close>: later properties overwrite earlier ones of the same token.\<close>

definition propertyMap :: "property list \<Rightarrow> (string \<rightharpoonup> string)" where
  "propertyMap ps = foldl (\<lambda>m p. m(fst p \<mapsto> snd p)) Map.empty ps"

text \<open>Reading a Go map of strings: a missing key reads as the empty string.\<close>

definition at :: "(string \<rightharpoonup> string) \<Rightarrow> string \<Rightarrow> string" where
  "at m k = (case m k of None \<Rightarrow> [] | Some v \<Rightarrow> v)"

text \<open>The block \<open>// Parse the priority\<close> of \<open>ParseTaskFromVTODO\<close>.\<close>

definition parsePriority :: "deps \<Rightarrow> (string \<rightharpoonup> string) \<Rightarrow> vtodo_error + int64" where
  "parsePriority D task =
     (if task ''PRIORITY'' \<noteq> None
      then (case ParseInt (at task ''PRIORITY'') of
              Inl err \<Rightarrow> Inl (ErrPriority err)
            | Inr priorityParsed \<Rightarrow> Inr (parseVTODOPriority D priorityParsed))
      else Inr 0)"

definition ParseTaskFromVTODO :: "deps \<Rightarrow> string \<Rightarrow> vtodo_error + Task" where
  "ParseTaskFromVTODO D content =
     (case ParseCalendar D content of
        Inl err \<Rightarrow> Inl (ErrCalendar err)
      | Inr components \<Rightarrow>
     (case components of
        [] \<Rightarrow> Inl PanicNoComponent
      | component # _ \<Rightarrow>
     (let task = propertyMap component in
      case parsePriority D task of
        Inl err \<Rightarrow> Inl err
      | Inr priority \<Rightarrow>
     (let duration = ParseDuration D (at task ''DURATION'');
          description = ReplaceAll2 BSL CHR '','' '','' (at task ''DESCRIPTION'');
          description = ReplaceAll2 BSL CHR ''n'' [LF] description;
          vTask = \<lparr> task_UID = at task ''UID'',
                    task_Title = at task ''SUMMARY'',
                    task_Description = description,
                    task_Done = False,
                    task_DoneAt = caldavTimeToTimestamp (at task ''COMPLETED''),
                    task_Priority = priority,
                    task_DueDate = caldavTimeToTimestamp (at task ''DUE''),
                    task_StartDate = caldavTimeToTimestamp (at task ''DTSTART''),
                    task_EndDate = zeroTime,
                    task_Created = zeroTime,
                    task_Updated = caldavTimeToTimestamp (at task ''DTSTAMP'') \<rparr>;
          vTask = (if at task ''STATUS'' = ''COMPLETED'' then vTask\<lparr>task_Done := True\<rparr>
                   else vTask);
          vTask = (if duration > 0 \<and> \<not> IsZero (task_StartDate vTask)
                   then vTask\<lparr>task_EndDate := Add (task_StartDate vTask) duration\<rparr>
                   else vTask)
      in Inr vTask))))"

text \<open>The times the CalDAV format can carry: those of the years 0 to 9999.\<close>

definition caldav_time :: "Time \<Rightarrow> bool" where
  "caldav_time t = (valid_time t \<and> 0 \<le> t_year t \<and> t_year t < 10000)"

subsection \<open>A reader of content lines for the examples\<close>

text \<open>
  The examples need some iCalendar reader in the place of the external library. This
  one reads unfolded content lines: the text is cut at line feeds, a carriage return
  at the end of a line and empty lines are dropped, a line is a token of letters,
  digits and hyphens, then parameters up to the first colon, then the value. After
  \<open>BEGIN:VCALENDAR\<close>, properties of the calendar are skipped, and each component
  (from its \<open>BEGIN\<close> to the next \<open>END\<close>) yields the list of its properties.
\<close>

fun splitOn :: "char \<Rightarrow> string \<Rightarrow> string list" where
  "splitOn c [] = [[]]"
| "splitOn c (x # xs) =
     (case splitOn c xs of
        [] \<Rightarrow> [[x]]
      | l # ls \<Rightarrow> if x = c then [] # l # ls else (x # l) # ls)"

definition dropCR :: "string \<Rightarrow> string" where
  "dropCR l = (if l \<noteq> [] \<and> last l = CR then butlast l else l)"

definition isTokenChar :: "char \<Rightarrow> bool" where
  "isTokenChar c =
     (let n = (of_char c :: nat)
      in (48 \<le> n \<and> n \<le> 57) \<or> (65 \<le> n \<and> n \<le> 90) \<or> (97 \<le> n \<and> n \<le> 122) \<or> n = 45)"

definition parseContentLine :: "string \<Rightarrow> property option" where
  "parseContentLine l =
     (let name = takeWhile isTokenChar l; rest = dropWhile isTokenChar l
      in if name = [] then None
         else case rest of
                [] \<Rightarrow> None
              | c # cs \<Rightarrow>
                  if c = CHR '':'' then Some (name, cs)
                  else if c = CHR '';''
                  then (case dropWhile (\<lambda>x. x \<noteq> CHR '':'') cs of
                          [] \<Rightarrow> None
                        | _ # v \<Rightarrow> Some (name, v))
                  else None)"

datatype reader_state = AtBegin | InCalendar | InComponent | AtEnd | Failed

record reader =
  rstate :: reader_state
  rcomponents :: "property list list"
  rcurrent :: "property list"

definition readLine :: "reader \<Rightarrow> property \<Rightarrow> reader" where
  "readLine r p =
     (case rstate r of
        AtBegin \<Rightarrow>
          if p = (''BEGIN'', ''VCALENDAR'') then r\<lparr>rstate := InCalendar\<rparr>
          else r\<lparr>rstate := Failed\<rparr>
      | InCalendar \<Rightarrow>
          if fst p = ''END''
          then (if snd p = ''VCALENDAR'' then r\<lparr>rstate := AtEnd\<rparr> else r\<lparr>rstate := Failed\<rparr>)
          else if fst p = ''BEGIN'' then r\<lparr>rstate := InComponent, rcurrent := []\<rparr>
          else r
      | InComponent \<Rightarrow>
          if fst p = ''END''
          then r\<lparr>rstate := InCalendar, rcomponents := rcomponents r @ [rcurrent r]\<rparr>
          else if fst p = ''BEGIN'' then r\<lparr>rstate := Failed\<rparr>
          else r\<lparr>rcurrent := rcurrent r @ [p]\<rparr>
      | AtEnd \<Rightarrow> r\<lparr>rstate := Failed\<rparr>
      | Failed \<Rightarrow> r)"

definition readCalendar :: "string \<Rightarrow> string + property list list" where
  "readCalendar text =
     (case those (map parseContentLine (filter (\<lambda>l. l \<noteq> []) (map dropCR (splitOn LF text)))) of
        None \<Rightarrow> Inl ''malformed line''
      | Some ps \<Rightarrow>
          (let r = foldl readLine \<lparr> rstate = AtBegin, rcomponents = [], rcurrent = [] \<rparr> ps
           in if rstate r = Failed then Inl ''malformed calendar'' else Inr (rcomponents r)))"

subsection \<open>Concrete data for the CalDAV examples\<close>

definition demo_deps :: deps where
  "demo_deps = \<lparr> Sha256 = (\<lambda>s. ''5feceb66''),
     formatDuration = (\<lambda>d. Itoa (d div 3600000000000) @ ''H0M0S''),
     mapPriorityToCaldav = (\<lambda>p. p),
     parseVTODOPriority = (\<lambda>p. p),
     ParseDuration = (\<lambda>s. 0),
     ParseCalendar = readCalendar \<rparr>"

definition demo_config :: Config where
  "demo_config = \<lparr> cfg_Name = ''test'', cfg_ProdID = ''Vikunja Todo App'', cfg_Color = [] \<rparr>"

definition date :: "int \<Rightarrow> nat \<Rightarrow> nat \<Rightarrow> Time" where
  "date y m d = \<lparr> t_year = y, t_month = m, t_day = d, t_hour = 0, t_minute = 0, t_second = 0,
     t_nsec = 0 \<rparr>"


text \<open>
  A finished todo with a description of two lines, a due date, a priority and a
  duration, stamped and last modified at the same instant.
\<close>

definition demo_done_todo :: Todo where
  "demo_done_todo = \<lparr> todo_Timestamp = date 2020 1 1, todo_UID = ''uid2'',
     todo_Summary = ''Todo #2'', todo_Description = ''one'' @ [LF] @ ''two'',
     todo_Completed = date 2020 2 1, todo_Organizer = None,
     todo_Priority = 3, todo_RelatedToUID = [], todo_Color = [],
     todo_Start = date 2020 1 2, todo_End = zeroTime, todo_DueDate = date 2020 3 1,
     todo_Duration = 3600000000000, todo_RepeatAfter = 0,
     todo_RepeatMode = TaskRepeatModeDefault, todo_Created = zeroTime,
     todo_Updated = date 2020 1 1 \<rparr>"

text \<open>The same todo, last modified in June 2021.\<close>

definition demo_edited_todo :: Todo where
  "demo_edited_todo = demo_done_todo\<lparr>todo_Updated := date 2021 6 1\<rparr>"

section \<open>The structure importer\<close>

text \<open>
  The entities \<open>InsertFromStructure\<close> walks, with the fields it reads and writes. A
  related task is a task of its own; the importer creates it and looks no further into
  it, so the model keeps the fields of a task apart (\<open>TaskCore\<close>) from what hangs on an
  imported task. \<open>RelatedTasks\<close> is a Go map from relation kind to tasks; the model lists
  its entries in the order the run visits them. \<open>BackgroundInformation\<close> is an
  \<open>interface{}\<close>; \<open>Some\<close> stands for a \<open>*bytes.Buffer\<close> and \<open>None\<close> for anything else.
  The file of an attachment is a pointer and may be \<open>nil\<close>.
\<close>

type_synonym bytes = "8 word list"

record File =
  fl_ID :: int64
  fl_Name :: string
  fl_Size :: "64 word"
  fl_FileContent :: bytes

record Label =
  lb_ID :: int64
  lb_Title :: string
  lb_HexColor :: string

record TaskAttachment =
  ta_ID :: int64
  ta_TaskID :: int64
  ta_File :: "File option"

record TaskCore =
  tk_ID :: int64
  tk_Title :: string
  tk_ListID :: int64
  tk_BucketID :: int64

record ImportTask =
  it_Task :: TaskCore
  it_RelatedTasks :: "(string \<times> TaskCore list) list"
  it_Attachments :: "TaskAttachment list"
  it_Labels :: "Label list"

record Bucket =
  bk_ID :: int64
  bk_Title :: string
  bk_ListID :: int64

record ListWithTasksAndBuckets =
  lwt_ID :: int64
  lwt_Title :: string
  lwt_NamespaceID :: int64
  lwt_Tasks :: "ImportTask list"
  lwt_Buckets :: "Bucket list"
  lwt_BackgroundInformation :: "bytes option"

record NamespaceWithLists =
  nwl_ID :: int64
  nwl_Title :: string
  nwl_Lists :: "ListWithTasksAndBuckets list"

text \<open>
  The operations the importer calls are defined in files of the repository that are
  not at hand (\<open>LabelTask.Create\<close> is, but works on tables this part of the model keeps
  abstract). They are parameters: each takes what the transaction sees of the database
  (\<open>files.Create\<close>, which gets no session, takes the file store instead) and either
  fails with an error or returns the new content and what the importer reads from the
  entity afterwards. \<open>op_Commit\<close> says whether committing fails.
\<close>

record ('db, 'fs) ops =
  op_NamespaceCreate :: "'db \<Rightarrow> User \<Rightarrow> NamespaceWithLists \<Rightarrow> error + 'db \<times> int64"
  op_ListCreate :: "'db \<Rightarrow> User \<Rightarrow> ListWithTasksAndBuckets \<Rightarrow> error + 'db \<times> int64"
  op_filesCreate :: "'fs \<Rightarrow> bytes \<Rightarrow> string \<Rightarrow> 64 word \<Rightarrow> User \<Rightarrow> error + 'fs \<times> File"
  op_SetListBackground :: "'db \<Rightarrow> int64 \<Rightarrow> File \<Rightarrow> error + 'db \<times> unit"
  op_BucketCreate :: "'db \<Rightarrow> User \<Rightarrow> Bucket \<Rightarrow> error + 'db \<times> Bucket"
  op_TaskCreate :: "'db \<Rightarrow> User \<Rightarrow> TaskCore \<Rightarrow> error + 'db \<times> TaskCore"
  op_TaskRelationCreate :: "'db \<Rightarrow> User \<Rightarrow> int64 \<Rightarrow> int64 \<Rightarrow> string \<Rightarrow> error + 'db \<times> unit"
  op_NewAttachment ::
    "'db \<Rightarrow> TaskAttachment \<Rightarrow> bytes \<Rightarrow> string \<Rightarrow> 64 word \<Rightarrow> User \<Rightarrow> error + 'db \<times> unit"
  op_LabelCreate :: "'db \<Rightarrow> User \<Rightarrow> Label \<Rightarrow> error + 'db \<times> Label"
  op_LabelTaskCreate :: "'db \<Rightarrow> User \<Rightarrow> int64 \<Rightarrow> int64 \<Rightarrow> error + 'db \<times> unit"
  op_BucketReadAll :: "'db \<Rightarrow> User \<Rightarrow> int64 \<Rightarrow> error + 'db \<times> Bucket list"
  op_BucketDelete :: "'db \<Rightarrow> User \<Rightarrow> Bucket \<Rightarrow> error + 'db \<times> unit"
  op_Commit :: "'db \<Rightarrow> error option"

subsection \<open>The session and its transaction\<close>

text \<open>
  \<open>db.NewSession()\<close> opens a transaction on the database. The model keeps what is
  committed, what the transaction sees, the file store, and the record of what the
  importer did: which operation it called and with what error, when it rolled back,
  and the deferred \<open>s.Close()\<close>, which drops what is not committed.
\<close>

datatype op_kind =
    OpNamespaceCreate | OpListCreate | OpFilesCreate | OpSetListBackground | OpBucketCreate
  | OpTaskCreate | OpRelatedTaskCreate | OpTaskRelationCreate | OpNewAttachment
  | OpLabelCreate | OpLabelTaskCreate | OpBucketReadAll | OpBucketDelete | OpCommit

datatype tx_event = Did op_kind "error option" | RolledBack | Closed

record ('db, 'fs) world =
  w_committed :: 'db
  w_working :: 'db
  w_files :: 'fs
  w_trace :: "tx_event list"

definition NewSession :: "'db \<Rightarrow> 'fs \<Rightarrow> ('db, 'fs) world" where
  "NewSession db fs = \<lparr> w_committed = db, w_working = db, w_files = fs, w_trace = [] \<rparr>"

definition Rollback :: "('db, 'fs) world \<Rightarrow> ('db, 'fs) world" where
  "Rollback w = w\<lparr>w_working := w_committed w, w_trace := w_trace w @ [RolledBack]\<rparr>"

definition Close :: "('db, 'fs) world \<Rightarrow> ('db, 'fs) world" where
  "Close w = w\<lparr>w_working := w_committed w, w_trace := w_trace w @ [Closed]\<rparr>"

text \<open>
  Where the walk stands after a piece of it: it goes on with a value, the function has
  returned an error, or the run has panicked.
\<close>

datatype ('w, 'a) res = Go_on 'w 'a | Returned error 'w | Panicked 'w

definition andThen :: "('w, 'a) res \<Rightarrow> ('w \<Rightarrow> 'a \<Rightarrow> ('w, 'b) res) \<Rightarrow> ('w, 'b) res" where
  "andThen r k = (case r of Go_on w x \<Rightarrow> k w x | Returned err w \<Rightarrow> Returned err w
                  | Panicked w \<Rightarrow> Panicked w)"

text \<open>
  A call on the session followed by \<open>if err != nil { _ = s.Rollback(); return err }\<close>.
\<close>

definition attempt ::
  "op_kind \<Rightarrow> ('db \<Rightarrow> error + 'db \<times> 'a) \<Rightarrow> ('db, 'fs) world \<Rightarrow> (('db, 'fs) world, 'a) res" where
  "attempt k f w =
     (case f (w_working w) of
        Inl err \<Rightarrow> Returned err (Rollback (w\<lparr>w_trace := w_trace w @ [Did k (Some err)]\<rparr>))
      | Inr (db, x) \<Rightarrow> Go_on (w\<lparr>w_working := db, w_trace := w_trace w @ [Did k None]\<rparr>) x)"

text \<open>The same for \<open>files.Create\<close>, which works on the file store.\<close>

definition attemptFile ::
  "('fs \<Rightarrow> error + 'fs \<times> 'a) \<Rightarrow> ('db, 'fs) world \<Rightarrow> (('db, 'fs) world, 'a) res" where
  "attemptFile f w =
     (case f (w_files w) of
        Inl err \<Rightarrow>
          Returned err (Rollback (w\<lparr>w_trace := w_trace w @ [Did OpFilesCreate (Some err)]\<rparr>))
      | Inr (fs, x) \<Rightarrow>
          Go_on (w\<lparr>w_files := fs, w_trace := w_trace w @ [Did OpFilesCreate None]\<rparr>) x)"

subsection \<open>The walk\<close>

text \<open>The loop \<open>// Create all labels\<close> of a task, with the map of labels seen so far.\<close>

fun createLabels ::
  "('db, 'fs) ops \<Rightarrow> User \<Rightarrow> int64 \<Rightarrow> (string \<rightharpoonup> Label) \<Rightarrow> ('db, 'fs) world \<Rightarrow> Label list
   \<Rightarrow> (('db, 'fs) world, string \<rightharpoonup> Label) res" where
  "createLabels I u taskID labels w [] = Go_on w labels"
| "createLabels I u taskID labels w (label # rest) =
     andThen
       (case labels (lb_Title label @ lb_HexColor label) of
          Some lb \<Rightarrow> Go_on w (lb, labels)
        | None \<Rightarrow>
            andThen (attempt OpLabelCreate (\<lambda>db. op_LabelCreate I db u label) w)
              (\<lambda>w created.
                 Go_on w (created, labels(lb_Title label @ lb_HexColor label \<mapsto> created))))
       (\<lambda>w found.
          andThen
            (attempt OpLabelTaskCreate
               (\<lambda>db. op_LabelTaskCreate I db u (lb_ID (fst found)) taskID) w)
            (\<lambda>w _. createLabels I u taskID (snd found) w rest))"

text \<open>The loop \<open>// Create all attachments for each task\<close>.\<close>

fun createAttachments ::
  "('db, 'fs) ops \<Rightarrow> User \<Rightarrow> int64 \<Rightarrow> ('db, 'fs) world \<Rightarrow> TaskAttachment list
   \<Rightarrow> (('db, 'fs) world, unit) res" where
  "createAttachments I u taskID w [] = Go_on w ()"
| "createAttachments I u taskID w (a # rest) =
     (case ta_File a of
        None \<Rightarrow> Panicked w
      | Some file \<Rightarrow>
          if length (fl_FileContent file) > 0
          then andThen
                 (attempt OpNewAttachment
                    (\<lambda>db. op_NewAttachment I db (a\<lparr>ta_TaskID := taskID\<rparr>) (fl_FileContent file)
                            (fl_Name file) (fl_Size file) u) w)
                 (\<lambda>w _. createAttachments I u taskID w rest)
          else createAttachments I u taskID w rest)"

text \<open>The loops \<open>// Create all relation for each task\<close>: the tasks of one kind, and the kinds.\<close>

fun createRelatedTasks ::
  "('db, 'fs) ops \<Rightarrow> User \<Rightarrow> TaskCore \<Rightarrow> string \<Rightarrow> ('db, 'fs) world \<Rightarrow> TaskCore list
   \<Rightarrow> (('db, 'fs) world, unit) res" where
  "createRelatedTasks I u t kind w [] = Go_on w ()"
| "createRelatedTasks I u t kind w (rt # rest) =
     andThen
       (if tk_ID rt = 0
        then attempt OpRelatedTaskCreate
               (\<lambda>db. op_TaskCreate I db u (rt\<lparr>tk_ListID := tk_ListID t\<rparr>)) w
        else Go_on w rt)
       (\<lambda>w rt.
          andThen
            (attempt OpTaskRelationCreate
               (\<lambda>db. op_TaskRelationCreate I db u (tk_ID t) (tk_ID rt) kind) w)
            (\<lambda>w _. createRelatedTasks I u t kind w rest))"

fun createRelations ::
  "('db, 'fs) ops \<Rightarrow> User \<Rightarrow> TaskCore \<Rightarrow> ('db, 'fs) world \<Rightarrow> (string \<times> TaskCore list) list
   \<Rightarrow> (('db, 'fs) world, unit) res" where
  "createRelations I u t w [] = Go_on w ()"
| "createRelations I u t w (entry # rest) =
     andThen (createRelatedTasks I u t (fst entry) w (snd entry))
       (\<lambda>w _. createRelations I u t w rest)"

text \<open>
  The loop \<open>// Create all tasks\<close> of a list, with the flag \<open>needsDefaultBucket\<close> and the
  map of labels.
\<close>

fun createTasks ::
  "('db, 'fs) ops \<Rightarrow> User \<Rightarrow> int64 \<Rightarrow> (int64 \<rightharpoonup> Bucket) \<Rightarrow> bool \<Rightarrow> (string \<rightharpoonup> Label)
   \<Rightarrow> ('db, 'fs) world \<Rightarrow> ImportTask list
   \<Rightarrow> (('db, 'fs) world, bool \<times> (string \<rightharpoonup> Label)) res" where
  "createTasks I u listID buckets needsDefaultBucket labels w [] =
     Go_on w (needsDefaultBucket, labels)"
| "createTasks I u listID buckets needsDefaultBucket labels w (t # rest) =
     (let bucket = buckets (tk_BucketID (it_Task t));
          exists = (bucket \<noteq> None);
          t1 = (case bucket of
                  Some b \<Rightarrow> (it_Task t)\<lparr>tk_BucketID := bk_ID b\<rparr>
                | None \<Rightarrow> if 0 <s tk_BucketID (it_Task t)
                          then (it_Task t)\<lparr>tk_BucketID := 0\<rparr> else it_Task t);
          needsDefaultBucket =
            (if \<not> exists \<or> tk_BucketID t1 = 0 then True else needsDefaultBucket);
          t2 = t1\<lparr>tk_ListID := listID\<rparr>
      in andThen (attempt OpTaskCreate (\<lambda>db. op_TaskCreate I db u t2) w)
           (\<lambda>w t3.
              andThen (createRelations I u t3 w (it_RelatedTasks t))
                (\<lambda>w _.
                   andThen (createAttachments I u (tk_ID t3) w (it_Attachments t))
                     (\<lambda>w _.
                        andThen (createLabels I u (tk_ID t3) labels w (it_Labels t))
                          (\<lambda>w labels.
                             createTasks I u listID buckets needsDefaultBucket labels w
                               rest)))))"

text \<open>The loop \<open>// Create all buckets\<close>, with the map from old bucket id to new bucket.\<close>

fun createBuckets ::
  "('db, 'fs) ops \<Rightarrow> User \<Rightarrow> int64 \<Rightarrow> (int64 \<rightharpoonup> Bucket) \<Rightarrow> ('db, 'fs) world \<Rightarrow> Bucket list
   \<Rightarrow> (('db, 'fs) world, int64 \<rightharpoonup> Bucket) res" where
  "createBuckets I u listID buckets w [] = Go_on w buckets"
| "createBuckets I u listID buckets w (bucket # rest) =
     (let oldID = bk_ID bucket
      in andThen
           (attempt OpBucketCreate
              (\<lambda>db. op_BucketCreate I db u (bucket\<lparr>bk_ID := 0, bk_ListID := listID\<rparr>)) w)
           (\<lambda>w created. createBuckets I u listID (buckets(oldID \<mapsto> created)) w rest))"

text \<open>
  The block under \<open>if !needsDefaultBucket\<close>: read the first bucket of the list and delete
  it. \<open>buckets[0]\<close> panics when none is returned.
\<close>

definition deleteDefaultBucket ::
  "('db, 'fs) ops \<Rightarrow> User \<Rightarrow> int64 \<Rightarrow> ('db, 'fs) world \<Rightarrow> (('db, 'fs) world, unit) res" where
  "deleteDefaultBucket I u listID w =
     andThen (attempt OpBucketReadAll (\<lambda>db. op_BucketReadAll I db u listID) w)
       (\<lambda>w bucketsIn.
          case bucketsIn of
            [] \<Rightarrow> Panicked w
          | b # _ \<Rightarrow> attempt OpBucketDelete (\<lambda>db. op_BucketDelete I db u b) w)"

text \<open>The body of the loop \<open>// Create all lists\<close>.\<close>

definition createList ::
  "('db, 'fs) ops \<Rightarrow> User \<Rightarrow> int64 \<Rightarrow> (string \<rightharpoonup> Label) \<Rightarrow> ('db, 'fs) world
   \<Rightarrow> ListWithTasksAndBuckets \<Rightarrow> (('db, 'fs) world, string \<rightharpoonup> Label) res" where
  "createList I u namespaceID labels w l =
     andThen (attempt OpListCreate (\<lambda>db. op_ListCreate I db u (l\<lparr>lwt_NamespaceID := namespaceID\<rparr>)) w)
       (\<lambda>w listID.
          andThen
            (case lwt_BackgroundInformation l of
               Some backgroundFile \<Rightarrow>
                 andThen
                   (attemptFile
                      (\<lambda>fs. op_filesCreate I fs backgroundFile []
                              (of_nat (length backgroundFile)) u) w)
                   (\<lambda>w file.
                      attempt OpSetListBackground (\<lambda>db. op_SetListBackground I db listID file) w)
             | None \<Rightarrow> Go_on w ())
            (\<lambda>w _.
               andThen (createBuckets I u listID Map.empty w (lwt_Buckets l))
                 (\<lambda>w buckets.
                    andThen (createTasks I u listID buckets False labels w (lwt_Tasks l))
                      (\<lambda>w after.
                         andThen
                           (if \<not> fst after then deleteDefaultBucket I u listID w
                            else Go_on w ())
                           (\<lambda>w _. Go_on w (snd after))))))"

fun createLists ::
  "('db, 'fs) ops \<Rightarrow> User \<Rightarrow> int64 \<Rightarrow> (string \<rightharpoonup> Label) \<Rightarrow> ('db, 'fs) world
   \<Rightarrow> ListWithTasksAndBuckets list \<Rightarrow> (('db, 'fs) world, string \<rightharpoonup> Label) res" where
  "createLists I u namespaceID labels w [] = Go_on w labels"
| "createLists I u namespaceID labels w (l # rest) =
     andThen (createList I u namespaceID labels w l)
       (\<lambda>w labels. createLists I u namespaceID labels w rest)"

text \<open>The loop \<open>// Create all namespaces\<close>.\<close>

fun createNamespaces ::
  "('db, 'fs) ops \<Rightarrow> User \<Rightarrow> (string \<rightharpoonup> Label) \<Rightarrow> ('db, 'fs) world
   \<Rightarrow> NamespaceWithLists list \<Rightarrow> (('db, 'fs) world, string \<rightharpoonup> Label) res" where
  "createNamespaces I u labels w [] = Go_on w labels"
| "createNamespaces I u labels w (n # rest) =
     andThen (attempt OpNamespaceCreate (\<lambda>db. op_NamespaceCreate I db u n) w)
       (\<lambda>w namespaceID.
          andThen (createLists I u namespaceID labels w (nwl_Lists n))
            (\<lambda>w labels. createNamespaces I u labels w rest))"

text \<open>
  \<open>InsertFromStructure\<close> returns an error or \<open>nil\<close>, or panics; the deferred \<open>s.Close()\<close>
  runs in each case. The model returns the outcome together with the world left behind.
\<close>

datatype outcome = Success | Error error | Panic

definition InsertFromStructure ::
  "('db, 'fs) ops \<Rightarrow> NamespaceWithLists list \<Rightarrow> User \<Rightarrow> 'db \<Rightarrow> 'fs \<Rightarrow> outcome \<times> ('db, 'fs) world" where
  "InsertFromStructure I str u db fs =
     (case createNamespaces I u Map.empty (NewSession db fs) str of
        Returned err w \<Rightarrow> (Error err, Close w)
      | Panicked w \<Rightarrow> (Panic, Close w)
      | Go_on w _ \<Rightarrow>
          (case op_Commit I (w_working w) of
             Some err \<Rightarrow> (Error err, Close (w\<lparr>w_trace := w_trace w @ [Did OpCommit (Some err)]\<rparr>))
           | None \<Rightarrow>
               (Success,
                Close (w\<lparr>w_committed := w_working w,
                         w_trace := w_trace w @ [Did OpCommit None]\<rparr>))))"

subsection \<open>What a piece of the walk leaves behind\<close>

text \<open>
  An event is fine for \<open>Q\<close> when it is a call that returned no error, of a kind \<open>Q\<close>
  admits.
\<close>

fun ok_event :: "(op_kind \<Rightarrow> bool) \<Rightarrow> tx_event \<Rightarrow> bool" where
  "ok_event Q (Did k None) = Q k"
| "ok_event Q _ = False"

text \<open>
  A piece of the walk that starts in world \<open>w\<close> keeps within \<open>Q\<close> when it leaves what is
  committed alone and adds to the record only fine events, except that a return with
  an error ends on the failed call and the rollback, with the transaction reset.
\<close>

definition keeps :: "(op_kind \<Rightarrow> bool) \<Rightarrow> ('db, 'fs) world \<Rightarrow> (('db, 'fs) world, 'a) res \<Rightarrow> bool" where
  "keeps Q w r =
     (case r of
        Go_on w' x \<Rightarrow>
          w_committed w' = w_committed w \<and>
          (\<exists>tr. w_trace w' = w_trace w @ tr \<and> list_all (ok_event Q) tr)
      | Returned err w' \<Rightarrow>
          w_committed w' = w_committed w \<and> w_working w' = w_committed w \<and>
          (\<exists>tr k. w_trace w' = w_trace w @ tr @ [Did k (Some err), RolledBack] \<and>
                   list_all (ok_event Q) tr)
      | Panicked w' \<Rightarrow>
          w_committed w' = w_committed w \<and>
          (\<exists>tr. w_trace w' = w_trace w @ tr \<and> list_all (ok_event Q) tr))"

text \<open>What the loop over the tasks of a list calls.\<close>

definition task_ops :: "(op_kind \<Rightarrow> bool) \<Rightarrow> bool" where
  "task_ops Q = (Q OpTaskCreate \<and> Q OpRelatedTaskCreate \<and> Q OpTaskRelationCreate \<and>
     Q OpNewAttachment \<and> Q OpLabelCreate \<and> Q OpLabelTaskCreate)"


text \<open>The operations of a list before its default bucket comes up.\<close>

definition before_delete :: "op_kind \<Rightarrow> bool" where
  "before_delete k = (k \<noteq> OpCommit \<and> k \<noteq> OpBucketDelete \<and> k \<noteq> OpBucketReadAll)"

subsection \<open>Concrete operations for the examples\<close>

text \<open>
  A database that is the list of the rows created so far, each named by its kind and
  title, with the odd numbers as primary keys; for a file store, the number of files.
  Creating a task without a title fails; everything else succeeds. Creating a list
  also creates its default bucket, which is what reading the first bucket returns.
\<close>

definition demo_insert :: "string list \<Rightarrow> string \<Rightarrow> string list \<times> int64" where
  "demo_insert db row = (db @ [row], 1 + 2 * of_nat (length db))"

definition demo_ops :: "(string list, nat) ops" where
  "demo_ops = \<lparr>
     op_NamespaceCreate = (\<lambda>db u n. Inr (demo_insert db (''namespace '' @ nwl_Title n))),
     op_ListCreate = (\<lambda>db u l.
        Inr (demo_insert (db @ [''default bucket of '' @ lwt_Title l]) (''list '' @ lwt_Title l))),
     op_filesCreate = (\<lambda>fs content name size u.
        Inr (fs + 1, \<lparr> fl_ID = of_nat (fs + 1), fl_Name = name, fl_Size = size,
                       fl_FileContent = content \<rparr>)),
     op_SetListBackground = (\<lambda>db listID file. Inr (db @ [''background''], ())),
     op_BucketCreate = (\<lambda>db u b.
        case demo_insert db (''bucket '' @ bk_Title b) of (db', i) \<Rightarrow> Inr (db', b\<lparr>bk_ID := i\<rparr>)),
     op_TaskCreate = (\<lambda>db u t.
        if tk_Title t = [] then Inl ErrTaskCannotBeEmpty
        else case demo_insert db (''task '' @ tk_Title t) of (db', i) \<Rightarrow> Inr (db', t\<lparr>tk_ID := i\<rparr>)),
     op_TaskRelationCreate = (\<lambda>db u taskID otherID kind. Inr (db @ [''relation '' @ kind], ())),
     op_NewAttachment = (\<lambda>db a content name size u. Inr (db @ [''attachment '' @ name], ())),
     op_LabelCreate = (\<lambda>db u l.
        case demo_insert db (''label '' @ lb_Title l) of (db', i) \<Rightarrow> Inr (db', l\<lparr>lb_ID := i\<rparr>)),
     op_LabelTaskCreate = (\<lambda>db u labelID taskID. Inr (db @ [''label on task''], ())),
     op_BucketReadAll = (\<lambda>db u listID.
        Inr (db, [\<lparr> bk_ID = 1, bk_Title = ''Backlog'', bk_ListID = listID \<rparr>])),
     op_BucketDelete = (\<lambda>db u b. Inr (db @ [''deleted bucket '' @ bk_Title b], ())),
     op_Commit = (\<lambda>db. None) \<rparr>"

definition demo_task :: "string \<Rightarrow> int64 \<Rightarrow> ImportTask" where
  "demo_task title bucketID =
     \<lparr> it_Task = \<lparr> tk_ID = 0, tk_Title = title, tk_ListID = 0, tk_BucketID = bucketID \<rparr>,
       it_RelatedTasks = [], it_Attachments = [], it_Labels = [] \<rparr>"

definition demo_list :: "Bucket list \<Rightarrow> ImportTask list \<Rightarrow> ListWithTasksAndBuckets" where
  "demo_list buckets tasks =
     \<lparr> lwt_ID = 0, lwt_Title = ''inbox'', lwt_NamespaceID = 0, lwt_Tasks = tasks,
       lwt_Buckets = buckets, lwt_BackgroundInformation = None \<rparr>"

definition demo_namespace :: "ListWithTasksAndBuckets list \<Rightarrow> NamespaceWithLists" where
  "demo_namespace ls = \<lparr> nwl_ID = 0, nwl_Title = ''imported'', nwl_Lists = ls \<rparr>"

definition demo_bucket :: Bucket where
  "demo_bucket = \<lparr> bk_ID = 7, bk_Title = ''Doing'', bk_ListID = 0 \<rparr>"

section \<open>Theorems\<close>

subsection \<open>Link shares and sharing relations\<close>

text \<open>
  C1. The capability checks of the sharing relations deny a link share principal,
  whatever right the link share stores: \<open>CanCreate\<close>, \<open>CanUpdate\<close> and \<open>CanDelete\<close>
  each return \<open>false\<close> together with no error. For a list-user relation the denial
  is the first statement of \<open>canDoListUser\<close> and holds whatever \<open>List.IsAdmin\<close>
  answers. The checks of a team-namespace relation have no test of their own and
  return the answer of \<open>Namespace.IsAdmin\<close>, which denies a link share.
\<close>

theorem C1_link_share_denied_on_sharing_relations:
  "ListUser_CanCreate list_IsAdmin lu s (AuthLinkSharing share) = (False, None) \<and>
   ListUser_CanUpdate list_IsAdmin lu s (AuthLinkSharing share) = (False, None) \<and>
   ListUser_CanDelete list_IsAdmin lu s (AuthLinkSharing share) = (False, None) \<and>
   TeamNamespace_CanCreate (Namespace_IsAdmin user_IsAdmin) tn s' (AuthLinkSharing share)
     = (False, None) \<and>
   TeamNamespace_CanUpdate (Namespace_IsAdmin user_IsAdmin) tn s' (AuthLinkSharing share)
     = (False, None) \<and>
   TeamNamespace_CanDelete (Namespace_IsAdmin user_IsAdmin) tn s' (AuthLinkSharing share)
     = (False, None)"
  by (simp add: ListUser_CanCreate_def ListUser_CanUpdate_def ListUser_CanDelete_def
      canDoListUser_def TeamNamespace_CanCreate_def TeamNamespace_CanUpdate_def
      TeamNamespace_CanDelete_def Namespace_IsAdmin_def)

text \<open>
  The checks of a team-namespace relation hand the principal to \<open>Namespace.IsAdmin\<close>
  unchanged: whatever that function is, they return its answer.
\<close>

lemma TeamNamespace_checks_delegate:
  "TeamNamespace_CanCreate namespace_IsAdmin tn s a = namespace_IsAdmin s (tn_NamespaceID tn) a"
  "TeamNamespace_CanUpdate namespace_IsAdmin tn s a = namespace_IsAdmin s (tn_NamespaceID tn) a"
  "TeamNamespace_CanDelete namespace_IsAdmin tn s a = namespace_IsAdmin s (tn_NamespaceID tn) a"
  by (simp_all add: TeamNamespace_CanCreate_def TeamNamespace_CanUpdate_def
      TeamNamespace_CanDelete_def)

text \<open>
  For a registered user the checks are not closed: they pass on the answer of the
  admin check of the parent list or namespace.
\<close>

lemma sharing_checks_for_users:
  "ListUser_CanCreate list_IsAdmin lu s (AuthUser u) = list_IsAdmin s (lu_ListID lu) (AuthUser u)"
  "ListUser_CanUpdate list_IsAdmin lu s (AuthUser u) = list_IsAdmin s (lu_ListID lu) (AuthUser u)"
  "ListUser_CanDelete list_IsAdmin lu s (AuthUser u) = list_IsAdmin s (lu_ListID lu) (AuthUser u)"
  "TeamNamespace_CanCreate (Namespace_IsAdmin user_IsAdmin) tn s' (AuthUser u)
     = user_IsAdmin s' (tn_NamespaceID tn) u"
  "TeamNamespace_CanUpdate (Namespace_IsAdmin user_IsAdmin) tn s' (AuthUser u)
     = user_IsAdmin s' (tn_NamespaceID tn) u"
  "TeamNamespace_CanDelete (Namespace_IsAdmin user_IsAdmin) tn s' (AuthUser u)
     = user_IsAdmin s' (tn_NamespaceID tn) u"
  by (simp_all add: ListUser_CanCreate_def ListUser_CanUpdate_def ListUser_CanDelete_def
      canDoListUser_def TeamNamespace_CanCreate_def TeamNamespace_CanUpdate_def
      TeamNamespace_CanDelete_def Namespace_IsAdmin_def)

text \<open>
  C2. Verifying a link share's password: an empty password is answered with
  PasswordRequired; a non-empty password that bcrypt reports as a mismatch with
  PasswordInvalid; a non-empty password that bcrypt accepts with no error. This holds
  for every share, in particular for those of type WithPassword.
\<close>

theorem C2_VerifyLinkSharePassword:
  "VerifyLinkSharePassword cmp share [] = Some (ErrLinkSharePasswordRequired (share_ID share)) \<and>
   (wrong \<noteq> [] \<and> cmp (share_Password share) wrong = Some ErrMismatchedHashAndPassword
      \<longrightarrow> VerifyLinkSharePassword cmp share wrong
            = Some (ErrLinkSharePasswordInvalid (share_ID share))) \<and>
   (correct \<noteq> [] \<and> cmp (share_Password share) correct = None
      \<longrightarrow> VerifyLinkSharePassword cmp share correct = None)"
  by (simp add: VerifyLinkSharePassword_def)

theorem C2_VerifyLinkSharePassword_witness:
  "''wrong'' \<noteq> [] \<and>
   demo_cmp (share_Password demo_share) ''wrong'' = Some ErrMismatchedHashAndPassword \<and>
   ''1234'' \<noteq> [] \<and> demo_cmp (share_Password demo_share) ''1234'' = None \<and>
   share_SharingType demo_share = SharingTypeWithPassword \<and>
   VerifyLinkSharePassword demo_cmp demo_share [] = Some (ErrLinkSharePasswordRequired 5) \<and>
   VerifyLinkSharePassword demo_cmp demo_share ''wrong'' = Some (ErrLinkSharePasswordInvalid 5) \<and>
   VerifyLinkSharePassword demo_cmp demo_share ''1234'' = None"
  using C2_VerifyLinkSharePassword [of demo_cmp demo_share "''wrong''" "''1234''"]
  by (simp add: demo_cmp_def demo_share_def)

subsection \<open>The identity of a link share\<close>

lemma sint_times_minus_one:
  "0 < sint (x::int64) \<Longrightarrow> sint (x * (- 1)) = - sint x"
proof -
  assume h: "0 < sint x"
  have lt: "sint x < 2 ^ 63" using sint_lt [of x] by simp
  have "sint (- x) = signed_take_bit 63 (- sint x)"
    by (simp add: sint_word_ariths)
  also have "\<dots> = - sint x"
    using h lt by (intro signed_take_bit_int_eq_self) auto
  finally show ?thesis by simp
qed

text \<open>
  C5, as stated, fails: \<open>GetID\<close> of a link share returns the share's ID itself. The share
  with ID 5 has identity 5, which is not \<open>-5\<close>, is not negative, and is the identity of
  the registered user with ID 5.
\<close>

theorem C5_GetID_counterexample:
  "auth_GetID (AuthLinkSharing demo_share) \<noteq> - share_ID demo_share \<and>
   \<not> sint (auth_GetID (AuthLinkSharing demo_share)) < 0 \<and>
   0 < sint (user_ID (demo_user 5 ''user5'')) \<and>
   auth_GetID (AuthLinkSharing demo_share) = auth_GetID (AuthUser (demo_user 5 ''user5''))"
  by (simp add: GetID_def demo_share_def demo_user_def)

text \<open>
  C5, amended. \<open>GetID\<close> of a link share is the share's ID. The negated ID is what
  \<open>getUserID\<close> returns and what \<open>toUser\<close> gives the pseudo-user built from the share:
  for a share with a positive ID it is \<open>-ID\<close>, negative, and differs from the ID of
  every user whose ID is positive.
\<close>

theorem C5_link_share_identity:
  assumes pos: "0 < sint (share_ID share)" and upos: "0 < sint (user_ID u)"
  shows "GetID share = share_ID share \<and>
     user_ID (toUser share) = getUserID share \<and>
     sint (getUserID share) = - sint (share_ID share) \<and>
     sint (getUserID share) < 0 \<and>
     user_ID (toUser share) \<noteq> user_ID u"
proof -
  have neg: "sint (getUserID share) = - sint (share_ID share)"
    unfolding getUserID_def using pos by (rule sint_times_minus_one)
  have tu: "user_ID (toUser share) = getUserID share"
    by (simp add: toUser_def Let_def)
  have "user_ID (toUser share) \<noteq> user_ID u"
  proof
    assume "user_ID (toUser share) = user_ID u"
    then have "sint (getUserID share) = sint (user_ID u)" using tu by simp
    with neg pos upos show False by simp
  qed
  with neg pos tu show ?thesis by (simp add: GetID_def)
qed

theorem C5_link_share_identity_witness:
  "0 < sint (share_ID demo_share) \<and> 0 < sint (user_ID (demo_user 5 ''user5'')) \<and>
   GetID demo_share = 5 \<and>
   user_ID (toUser demo_share) = - 5 \<and> sint (getUserID demo_share) = - 5 \<and>
   user_ID (toUser demo_share) \<noteq> user_ID (demo_user 5 ''user5'')"
proof -
  have pos: "0 < sint (share_ID demo_share)" by (simp add: demo_share_def)
  have u: "0 < sint (user_ID (demo_user 5 ''user5''))" by (simp add: demo_user_def)
  have id: "share_ID demo_share = 5" by (simp add: demo_share_def)
  from C5_link_share_identity [OF pos u] pos u id show ?thesis
    by (simp add: getUserID_def demo_user_def)
qed

subsection \<open>Creating sharing relations\<close>

lemmas create_defs = exists_ListUser_def Insert_ListUser_def Dispatch_def
  updateListLastUpdated_def exists_NamespaceUser_def Insert_NamespaceUser_def

lemma ListUser_Create_resolved:
  assumes "isValid (lu_Right lu) = None"
    and "GetListSimpleByID F s (lu_ListID lu) = Inr l"
    and "GetUserByUsername F s (lu_Username lu) = Inr u"
    and "\<not> F QGetListUser"
  shows "IsErrUserAlreadyHasAccess (fst (ListUser_Create F s a lu)) =
      (list_OwnerID l = user_ID u \<or>
       list_ex (\<lambda>r. lu_ListID r = lu_ListID lu \<and> lu_UserID r = user_ID u) (users_lists s))"
  using assms
  by (simp add: ListUser_Create_def Let_def create_defs split: sum.split prod.split)

lemma ListUser_Create_denied_unchanged:
  "IsErrUserAlreadyHasAccess (fst (ListUser_Create F s a lu)) \<longrightarrow>
   snd (snd (ListUser_Create F s a lu)) = s"
  by (simp add: ListUser_Create_def Let_def create_defs split: sum.split option.split)

lemma NamespaceUser_Create_resolved:
  assumes "isValid (nu_Right nu) = None"
    and "GetNamespaceByID F s (nu_NamespaceID nu) = Inr n"
    and "GetUserByUsername F s (nu_Username nu) = Inr u"
    and "\<not> F QGetNamespaceUser"
  shows "IsErrUserAlreadyHasNamespaceAccess (fst (NamespaceUser_Create F s a nu)) =
      (ns_OwnerID n = user_ID u \<or>
       list_ex (\<lambda>r. nu_NamespaceID r = nu_NamespaceID nu \<and> nu_UserID r = user_ID u)
         (users_namespaces s))"
  using assms
  by (simp add: NamespaceUser_Create_def Let_def create_defs split: sum.split prod.split)

lemma NamespaceUser_Create_denied_unchanged:
  "IsErrUserAlreadyHasNamespaceAccess (fst (NamespaceUser_Create F s a nu)) \<longrightarrow>
   snd (snd (NamespaceUser_Create F s a nu)) = s"
  by (simp add: NamespaceUser_Create_def Let_def create_defs split: sum.split option.split)

lemma ListUser_Create_ignores_teams:
  "fst (ListUser_Create F (s\<lparr>team_lists := tls, team_members := tms\<rparr>) a lu)
     = fst (ListUser_Create F s a lu)"
  by (simp add: ListUser_Create_def Let_def create_defs GetListSimpleByID_def
      GetUserByUsername_def split: sum.split option.split)

lemma ListUser_Create_inserts:
  assumes "isValid (lu_Right lu) = None"
    and "GetListSimpleByID F s (lu_ListID lu) = Inr l"
    and "GetUserByUsername F s (lu_Username lu) = Inr u"
    and "\<forall>op. \<not> F op"
    and "list_OwnerID l \<noteq> user_ID u"
    and "\<not> list_ex (\<lambda>r. lu_ListID r = lu_ListID lu \<and> lu_UserID r = user_ID u) (users_lists s)"
  shows "fst (ListUser_Create F s a lu) = None \<and>
     users_lists (snd (snd (ListUser_Create F s a lu))) =
       users_lists s @ [lu\<lparr>lu_UserID := user_ID u, lu_ID := autoincr s\<rparr>]"
  using assms
  by (simp add: ListUser_Create_def Let_def create_defs split: sum.split prod.split)

lemma demo_lookups:
  "GetListSimpleByID no_faults demo_session 1
     = Inr \<lparr> list_ID = 1, list_OwnerID = 1, list_NamespaceID = 1 \<rparr>"
  "GetListSimpleByID no_faults demo_session 2
     = Inr \<lparr> list_ID = 2, list_OwnerID = 3, list_NamespaceID = 1 \<rparr>"
  "GetListSimpleByID no_faults demo_session 3
     = Inr \<lparr> list_ID = 3, list_OwnerID = 3, list_NamespaceID = 1 \<rparr>"
  "GetNamespaceByID no_faults demo_session 1 = Inr \<lparr> ns_ID = 1, ns_OwnerID = 1 \<rparr>"
  "GetNamespaceByID no_faults demo_session 3 = Inr \<lparr> ns_ID = 3, ns_OwnerID = 3 \<rparr>"
  "GetUserByUsername no_faults demo_session ''user1'' = Inr (demo_user 1 ''user1'')"
  by (simp_all add: GetListSimpleByID_def GetNamespaceByID_def GetUserByUsername_def
      no_faults_def demo_session_def demo_user_def)

text \<open>
  C6. Once the right is valid, the list (namespace) and the user are found and the
  existence query itself does not fail, \<open>ListUser.Create\<close> (\<open>NamespaceUser.Create\<close>)
  returns the AlreadyHasAccess error exactly when the user owns the list (namespace) or
  a relation row for the pair exists. Whenever it returns that error, the session is
  what it was before the call: no row has been inserted.
\<close>

theorem C6_Create_AlreadyHasAccess:
  "(isValid (lu_Right lu) = None \<and> GetListSimpleByID F s (lu_ListID lu) = Inr l \<and>
    GetUserByUsername F s (lu_Username lu) = Inr u \<and> \<not> F QGetListUser \<longrightarrow>
      IsErrUserAlreadyHasAccess (fst (ListUser_Create F s a lu)) =
        (list_OwnerID l = user_ID u \<or>
         (\<exists>r \<in> set (users_lists s). lu_ListID r = lu_ListID lu \<and> lu_UserID r = user_ID u))) \<and>
   (IsErrUserAlreadyHasAccess (fst (ListUser_Create F s a lu)) \<longrightarrow>
      snd (snd (ListUser_Create F s a lu)) = s) \<and>
   (isValid (nu_Right nu) = None \<and> GetNamespaceByID F s (nu_NamespaceID nu) = Inr n \<and>
    GetUserByUsername F s (nu_Username nu) = Inr v \<and> \<not> F QGetNamespaceUser \<longrightarrow>
      IsErrUserAlreadyHasNamespaceAccess (fst (NamespaceUser_Create F s a nu)) =
        (ns_OwnerID n = user_ID v \<or>
         (\<exists>r \<in> set (users_namespaces s).
            nu_NamespaceID r = nu_NamespaceID nu \<and> nu_UserID r = user_ID v))) \<and>
   (IsErrUserAlreadyHasNamespaceAccess (fst (NamespaceUser_Create F s a nu)) \<longrightarrow>
      snd (snd (NamespaceUser_Create F s a nu)) = s)"
  using ListUser_Create_resolved [of lu F s l u a]
    NamespaceUser_Create_resolved [of nu F s n v a]
    ListUser_Create_denied_unchanged [of F s a lu]
    NamespaceUser_Create_denied_unchanged [of F s a nu]
  by (simp add: list_ex_iff)

theorem C6_Create_AlreadyHasAccess_witness:
  "isValid (lu_Right (new_ListUser ''user1'' 3)) = None \<and>
   GetListSimpleByID no_faults demo_session (lu_ListID (new_ListUser ''user1'' 3))
     = Inr \<lparr> list_ID = 3, list_OwnerID = 3, list_NamespaceID = 1 \<rparr> \<and>
   GetUserByUsername no_faults demo_session (lu_Username (new_ListUser ''user1'' 3))
     = Inr (demo_user 1 ''user1'') \<and>
   \<not> no_faults QGetListUser \<and>
   IsErrUserAlreadyHasAccess
     (fst (ListUser_Create no_faults demo_session (AuthUser (demo_user 3 ''user3''))
        (new_ListUser ''user1'' 3))) \<and>
   snd (snd (ListUser_Create no_faults demo_session (AuthUser (demo_user 3 ''user3''))
        (new_ListUser ''user1'' 3))) = demo_session \<and>
   isValid (nu_Right (new_NamespaceUser ''user1'' 1)) = None \<and>
   GetNamespaceByID no_faults demo_session (nu_NamespaceID (new_NamespaceUser ''user1'' 1))
     = Inr \<lparr> ns_ID = 1, ns_OwnerID = 1 \<rparr> \<and>
   \<not> no_faults QGetNamespaceUser \<and>
   IsErrUserAlreadyHasNamespaceAccess
     (fst (NamespaceUser_Create no_faults demo_session (AuthUser (demo_user 3 ''user3''))
        (new_NamespaceUser ''user1'' 1))) \<and>
   snd (snd (NamespaceUser_Create no_faults demo_session (AuthUser (demo_user 3 ''user3''))
        (new_NamespaceUser ''user1'' 1))) = demo_session"
proof -
  have v: "isValid RightRead = None"
    by (simp add: isValid_def)
  have rows: "\<exists>r \<in> set (users_lists demo_session). lu_ListID r = 3 \<and> lu_UserID r = 1"
    by (simp add: demo_session_def)
  have nf: "\<not> no_faults QGetListUser" "\<not> no_faults QGetNamespaceUser"
    by (simp_all add: no_faults_def)
  show ?thesis
    using C6_Create_AlreadyHasAccess [where lu = "new_ListUser ''user1'' 3"
        and F = no_faults and s = demo_session
        and l = "\<lparr> list_ID = 3, list_OwnerID = 3, list_NamespaceID = 1 \<rparr>"
        and u = "demo_user 1 ''user1''" and a = "AuthUser (demo_user 3 ''user3'')"
        and nu = "new_NamespaceUser ''user1'' 1" and n = "\<lparr> ns_ID = 1, ns_OwnerID = 1 \<rparr>"
        and v = "demo_user 1 ''user1''"]
      v rows nf demo_lookups
    by (simp add: new_ListUser_def new_NamespaceUser_def demo_user_def)
qed

text \<open>
  C10. The duplicate check of \<open>ListUser.Create\<close> looks at the owner of the list and at
  the direct list-user rows only: the error it returns is the same whatever the team
  tables hold. For a user who reaches the list through a team only (not the owner, no
  direct row), Create with a valid right, an existing list and user and no failing
  database call returns no error and appends the direct row for the user to the
  list-user table.
\<close>

theorem C10_Create_ignores_team_access:
  "fst (ListUser_Create F (s\<lparr>team_lists := tls, team_members := tms\<rparr>) a lu)
     = fst (ListUser_Create F s a lu) \<and>
   (isValid (lu_Right lu) = None \<and> GetListSimpleByID F s (lu_ListID lu) = Inr l \<and>
    GetUserByUsername F s (lu_Username lu) = Inr u \<and> (\<forall>op. \<not> F op) \<and>
    has_team_access s (lu_ListID lu) (user_ID u) \<and> list_OwnerID l \<noteq> user_ID u \<and>
    \<not> (\<exists>r \<in> set (users_lists s). lu_ListID r = lu_ListID lu \<and> lu_UserID r = user_ID u) \<longrightarrow>
      fst (ListUser_Create F s a lu) = None \<and>
      users_lists (snd (snd (ListUser_Create F s a lu))) =
        users_lists s @ [lu\<lparr>lu_UserID := user_ID u, lu_ID := autoincr s\<rparr>])"
  using ListUser_Create_ignores_teams [where F = F and s = s and tls = tls and tms = tms
        and a = a and lu = lu]
    ListUser_Create_inserts [where lu = lu and F = F and s = s and l = l and u = u and a = a]
  by (simp add: list_ex_iff)

theorem C10_Create_ignores_team_access_witness:
  "isValid (lu_Right (new_ListUser ''user1'' 2)) = None \<and>
   GetListSimpleByID no_faults demo_session (lu_ListID (new_ListUser ''user1'' 2))
     = Inr \<lparr> list_ID = 2, list_OwnerID = 3, list_NamespaceID = 1 \<rparr> \<and>
   GetUserByUsername no_faults demo_session (lu_Username (new_ListUser ''user1'' 2))
     = Inr (demo_user 1 ''user1'') \<and>
   has_team_access demo_session 2 1 \<and>
   fst (ListUser_Create no_faults demo_session (AuthUser (demo_user 3 ''user3''))
        (new_ListUser ''user1'' 2)) = None \<and>
   users_lists (snd (snd (ListUser_Create no_faults demo_session
        (AuthUser (demo_user 3 ''user3'')) (new_ListUser ''user1'' 2)))) =
     users_lists demo_session @
       [\<lparr> lu_ID = 2, lu_Username = ''user1'', lu_UserID = 1, lu_ListID = 2,
          lu_Right = RightRead \<rparr>]"
proof -
  have v: "isValid RightRead = None"
    by (simp add: isValid_def)
  have rows: "\<not> (\<exists>r \<in> set (users_lists demo_session). lu_ListID r = 2 \<and> lu_UserID r = 1)"
    by (simp add: demo_session_def)
  have team: "has_team_access demo_session 2 1"
    by (simp add: has_team_access_def demo_session_def)
  have nf: "\<forall>op. \<not> no_faults op"
    by (simp add: no_faults_def)
  have next_id: "autoincr demo_session = 2"
    by (simp add: demo_session_def)
  show ?thesis
    using C10_Create_ignores_team_access [where F = no_faults and s = demo_session
        and tls = "[]" and tms = "[]" and a = "AuthUser (demo_user 3 ''user3'')"
        and lu = "new_ListUser ''user1'' 2"
        and l = "\<lparr> list_ID = 2, list_OwnerID = 3, list_NamespaceID = 1 \<rparr>"
        and u = "demo_user 1 ''user1''"]
      v rows team nf next_id demo_lookups
    by (simp add: new_ListUser_def demo_user_def)
qed

section \<open>Theorems about the CalDAV codec\<close>

subsection \<open>Decimal numbers\<close>

lemma less_10_cases:
  "k < 10 \<Longrightarrow> k = 0 \<or> k = 1 \<or> k = 2 \<or> k = 3 \<or> k = 4 \<or> k = 5 \<or> k = 6 \<or> k = 7 \<or> k = 8 \<or> k = (9::nat)"
  by arith

lemma digitVal_digitChar [simp]: "k < 10 \<Longrightarrow> digitVal (digitChar k) = k"
  using less_10_cases [of k] by (auto simp add: digitVal_def digitChar_def)

lemma isDigitChar_digitChar [simp]: "k < 10 \<Longrightarrow> isDigitChar (digitChar k)"
  using less_10_cases [of k] by (auto simp add: isDigitChar_def digitChar_def)

lemma digitChar_neq_sign [simp]:
  "digitChar k \<noteq> CHR ''-''" "digitChar k \<noteq> CHR ''+''"
  by (simp_all add: digitChar_def)

lemma digitChar_0: "digitChar 0 = CHR ''0''"
  by (simp add: digitChar_def)

lemma digitsVal_snoc: "digitsVal (xs @ [c]) = digitsVal xs * 10 + digitVal c"
  by (simp add: digitsVal_def)

lemma digits_props:
  "digitsVal (digits n) = n \<and> list_all isDigitChar (digits n) \<and> digits n \<noteq> [] \<and>
   hd (digits n) \<noteq> CHR ''-'' \<and> hd (digits n) \<noteq> CHR ''+''"
proof (induction n rule: digits.induct)
  case (1 n)
  show ?case
  proof (cases "n < 10")
    case True
    then show ?thesis by (simp add: digits.simps [of n] digitsVal_def)
  next
    case False
    with 1 have IH: "digitsVal (digits (n div 10)) = n div 10"
      "list_all isDigitChar (digits (n div 10))" "digits (n div 10) \<noteq> []"
      "hd (digits (n div 10)) \<noteq> CHR ''-''" "hd (digits (n div 10)) \<noteq> CHR ''+''"
      by simp_all
    from False have d: "digits n = digits (n div 10) @ [digitChar (n mod 10)]"
      by (simp add: digits.simps [of n])
    show ?thesis
      using IH by (simp add: d digitsVal_snoc)
  qed
qed

lemma ParseInt_digits:
  assumes "int n < 2 ^ 63"
  shows "ParseInt (digits n) = Inr (word_of_int (int n))"
  using digits_props [of n] assms by (simp add: ParseInt_def Let_def)

lemma ParseInt_minus_digits:
  assumes "int n \<le> 2 ^ 63"
  shows "ParseInt (CHR ''-'' # digits n) = Inr (word_of_int (- int n))"
  using digits_props [of n] assms by (simp add: ParseInt_def Let_def)

lemma ParseInt_Itoa: "ParseInt (Itoa (sint (w::int64))) = Inr w"
proof (cases "sint w < 0")
  case True
  have "- (2 ^ 63) \<le> sint w" using sint_ge [of w] by simp
  then have "int (nat (- sint w)) \<le> 2 ^ 63" using True by simp
  from ParseInt_minus_digits [OF this] True show ?thesis
    by (simp add: Itoa_def)
next
  case False
  have "sint w < 2 ^ 63" using sint_lt [of w] by simp
  then have "int (nat (sint w)) < 2 ^ 63" using False by simp
  from ParseInt_digits [OF this] False show ?thesis
    by (simp add: Itoa_def)
qed

lemma digits_lt10: "n < 10 \<Longrightarrow> digits n = [digitChar n]"
  by (simp add: digits.simps [of n])

lemma digits_ge10: "10 \<le> n \<Longrightarrow> digits n = digits (n div 10) @ [digitChar (n mod 10)]"
  by (simp add: digits.simps [of n])

lemma appendInt2:
  "n < 100 \<Longrightarrow> appendInt (int n) 2 = [digitChar (n div 10), digitChar (n mod 10)]"
proof (cases "n < 10")
  case True
  then show ?thesis by (simp add: appendInt_def Let_def digits_lt10 digitChar_0)
next
  case False
  assume "n < 100"
  with False have "digits n = [digitChar (n div 10), digitChar (n mod 10)]"
    by (simp add: digits_ge10 digits_lt10)
  then show ?thesis by (simp add: appendInt_def Let_def)
qed

lemma digits4:
  assumes "n < 10000"
  shows "replicate (4 - length (digits n)) CHR ''0'' @ digits n =
     [digitChar (n div 1000), digitChar (n div 100 mod 10),
      digitChar (n div 10 mod 10), digitChar (n mod 10)]"
proof -
  consider "n < 10" | "10 \<le> n" "n < 100" | "100 \<le> n" "n < 1000" | "1000 \<le> n"
    by linarith
  then show ?thesis
  proof cases
    case 1
    then show ?thesis by (simp add: digits_lt10 digitChar_0 numeral_3_eq_3)
  next
    case 2
    then have "digits n = [digitChar (n div 10), digitChar (n mod 10)]"
      by (simp add: digits_ge10 digits_lt10)
    with 2 show ?thesis by (simp add: digitChar_0 numeral_2_eq_2)
  next
    case 3
    then have "digits (n div 10) = [digitChar (n div 10 div 10), digitChar (n div 10 mod 10)]"
      by (simp add: digits_ge10 digits_lt10)
    with 3 have "digits n = [digitChar (n div 100), digitChar (n div 10 mod 10), digitChar (n mod 10)]"
      by (simp add: digits_ge10 [of n] div_mult2_eq [symmetric])
    with 3 show ?thesis by (simp add: digitChar_0)
  next
    case 4
    with assms have "digits (n div 10 div 10) =
        [digitChar (n div 10 div 10 div 10), digitChar (n div 10 div 10 mod 10)]"
      by (simp add: digits_ge10 digits_lt10)
    with 4 have "digits (n div 10) =
        [digitChar (n div 10 div 10 div 10), digitChar (n div 10 div 10 mod 10),
         digitChar (n div 10 mod 10)]"
      by (simp add: digits_ge10 [of "n div 10"])
    with 4 have "digits n =
        [digitChar (n div 1000), digitChar (n div 100 mod 10),
         digitChar (n div 10 mod 10), digitChar (n mod 10)]"
      by (simp add: digits_ge10 [of n] div_mult2_eq [symmetric])
    then show ?thesis by simp
  qed
qed

lemma appendInt4:
  assumes "0 \<le> y" "y < 10000"
  shows "appendInt y 4 = [digitChar (nat y div 1000), digitChar (nat y div 100 mod 10),
     digitChar (nat y div 10 mod 10), digitChar (nat y mod 10)]"
proof -
  have "nat y < 10000" "nat \<bar>y\<bar> = nat y" "\<not> y < 0" using assms by simp_all
  with digits4 [of "nat y"] show ?thesis by (simp add: appendInt_def Let_def)
qed

subsection \<open>Writing a time and reading it back\<close>

lemma dec2: "n < 100 \<Longrightarrow> n div 10 * 10 + n mod 10 = (n::nat)"
  by simp

lemma dec4:
  "((n div 1000 * 10 + n div 100 mod 10) * 10 + n div 10 mod 10) * 10 + n mod 10 = (n::nat)"
proof -
  have a: "n div 100 = n div 10 div 10" "n div 1000 = n div 10 div 10 div 10"
    by (simp_all add: div_mult2_eq [symmetric])
  show ?thesis
    unfolding a by (simp add: algebra_simps)
qed

lemma getnum_appendInt2:
  "n < 100 \<Longrightarrow> getnum (appendInt (int n) 2 @ rest) fixed = Inr (n, rest)"
  by (simp add: appendInt2 getnum_def)

lemma parseYear_appendInt4:
  assumes "0 \<le> y" "y < 10000"
  shows "parseYear (appendInt y 4 @ rest) = Inr (y, rest)"
proof -
  have lt: "nat y div 1000 < 10" "nat y div 100 mod 10 < 10" "nat y div 10 mod 10 < 10"
    "nat y mod 10 < 10"
    using assms by simp_all
  have "int (((nat y div 1000 * 10 + nat y div 100 mod 10) * 10 + nat y div 10 mod 10) * 10
            + nat y mod 10) = y"
    using assms by (simp only: dec4)
  then show ?thesis
    using lt by (simp add: appendInt4 [OF assms] parseYear_def digitsVal_def)
qed

lemma parseDate_Format:
  assumes "caldav_time t"
  shows "parseDate (appendInt (t_year t) 4 @ appendInt (int (t_month t)) 2
                 @ appendInt (int (t_day t)) 2 @ rest) = Inr ((t_year t, t_month t, t_day t), rest)"
proof -
  from assms have y: "0 \<le> t_year t" "t_year t < 10000"
    and m: "t_month t < 100" "t_month t \<noteq> 0" "\<not> 12 < t_month t"
    and d: "t_day t < 100"
    by (auto simp add: caldav_time_def valid_time_def daysIn_def split: if_splits)
  show ?thesis
    using m
    by (simp add: parseDate_def parseYear_appendInt4 [OF y] getnum_appendInt2 [OF m(1)]
        getnum_appendInt2 [OF d])
qed

lemma parseFraction_no_fraction [simp]:
  "parseFraction [] = (0, [])" "parseFraction (CHR ''Z'' # rest) = (0, CHR ''Z'' # rest)"
  by (simp_all add: parseFraction_def split: list.split)

lemma parseClock_Format:
  assumes "caldav_time t" and "rest = [] \<or> hd rest = CHR ''Z''"
  shows "parseClock (appendInt (int (t_hour t)) 2 @ appendInt (int (t_minute t)) 2
                  @ appendInt (int (t_second t)) 2 @ rest)
         = Inr ((t_hour t, t_minute t, t_second t, 0), rest)"
proof -
  from assms have h: "t_hour t < 100" "\<not> 24 \<le> t_hour t"
    and mi: "t_minute t < 100" "\<not> 60 \<le> t_minute t"
    and sec: "t_second t < 100" "\<not> 60 \<le> t_second t"
    by (auto simp add: caldav_time_def valid_time_def)
  from assms(2) have "parseFraction rest = (0, rest)"
    by (cases rest) auto
  then show ?thesis
    using h mi sec
    by (simp add: parseClock_def getnum_appendInt2 [OF h(1)] getnum_appendInt2 [OF mi(1)]
        getnum_appendInt2 [OF sec(1)])
qed

lemma Parse_makeCalDavTime:
  assumes "caldav_time t"
  shows "Parse DateFormatZ (makeCalDavTimeFromTimeStamp t) = Inr (t\<lparr>t_nsec := 0\<rparr>)"
proof -
  from assms have d: "\<not> t_day t < 1" "\<not> daysIn (t_month t) (t_year t) < t_day t"
    by (auto simp add: caldav_time_def valid_time_def)
  show ?thesis
    using d
    by (simp add: Parse_def makeCalDavTimeFromTimeStamp_def Format_def Let_def
        parseDate_Format [OF assms] parseClock_Format [OF assms] skipChar_def finishParse_def)
qed

lemma length_appendInt2: "n < 100 \<Longrightarrow> length (appendInt (int n) 2) = 2"
  by (simp add: appendInt2)

lemma length_makeCalDavTime:
  assumes "caldav_time t"
  shows "length (makeCalDavTimeFromTimeStamp t) = 16"
proof -
  from assms have y: "0 \<le> t_year t" "t_year t < 10000"
    and b: "t_month t < 100" "t_day t < 100" "t_hour t < 100" "t_minute t < 100"
      "t_second t < 100"
    by (auto simp add: caldav_time_def valid_time_def daysIn_def split: if_splits)
  show ?thesis
    using b by (simp add: makeCalDavTimeFromTimeStamp_def Format_def Let_def appendInt4 [OF y]
        length_appendInt2)
qed

lemma caldavTimeToTimestamp_makeCalDavTime:
  assumes "caldav_time t"
  shows "caldavTimeToTimestamp (makeCalDavTimeFromTimeStamp t) = t\<lparr>t_nsec := 0\<rparr>"
proof -
  have z: "suffix ''Z'' (makeCalDavTimeFromTimeStamp t)"
    by (simp add: makeCalDavTimeFromTimeStamp_def)
  have ne: "makeCalDavTimeFromTimeStamp t \<noteq> []"
    by (simp add: makeCalDavTimeFromTimeStamp_def)
  show ?thesis
    using z ne
    by (simp add: caldavTimeToTimestamp_def caldavLayout_def Let_def
        length_makeCalDavTime [OF assms] Parse_makeCalDavTime [OF assms])
qed

subsection \<open>Escaping, and the map of properties\<close>

lemma ReplaceAll2_skip: "a \<noteq> c \<Longrightarrow> ReplaceAll2 a b new (c # s) = c # ReplaceAll2 a b new s"
  by (cases s) auto

lemma escape_has_no_escaped_comma:
  "BSL \<notin> set d \<Longrightarrow> CR \<notin> set d \<Longrightarrow>
   ReplaceAll2 BSL CHR '','' '','' (escapeLineBreaks d) = escapeLineBreaks d"
  by (induction d rule: escapeLineBreaks.induct) (auto simp add: ReplaceAll2_skip)

lemma unescape_escape:
  "BSL \<notin> set d \<Longrightarrow> CR \<notin> set d \<Longrightarrow>
   ReplaceAll2 BSL CHR ''n'' [LF] (escapeLineBreaks d) = d"
  by (induction d rule: escapeLineBreaks.induct) (auto simp add: ReplaceAll2_skip)

lemma propertyMap_foldl:
  "foldl (\<lambda>m p. m(fst p \<mapsto> snd p)) m ps k =
     (case map_of (rev ps) k of None \<Rightarrow> m k | Some v \<Rightarrow> Some v)"
  by (induction ps arbitrary: m) (auto simp add: map_add_def split: option.splits)

lemma propertyMap_nil [simp]: "propertyMap [] k = None"
  by (simp add: propertyMap_def)

lemma propertyMap_append:
  "propertyMap (xs @ ys) k =
     (case propertyMap ys k of None \<Rightarrow> propertyMap xs k | Some v \<Rightarrow> Some v)"
  by (simp add: propertyMap_def propertyMap_foldl map_add_def split: option.splits)

lemma propertyMap_single [simp]:
  "propertyMap [p] k = (if fst p = k then Some (snd p) else None)"
  by (simp add: propertyMap_def)

lemma propertyMap_Cons:
  "propertyMap (p # ps) k =
     (case propertyMap ps k of None \<Rightarrow> (if fst p = k then Some (snd p) else None)
      | Some v \<Rightarrow> Some v)"
  using propertyMap_append [of "[p]" ps k] by (simp split: option.split)

lemmas seg_simps = plain_def lineProperty_def propertyMap_Cons Let_def

lemma lookup_head:
  "propertyMap (map lineProperty (headLines t)) k =
     (if k = ''SUMMARY'' then Some (todo_Summary t)
      else if k = ''DTSTAMP'' then Some (makeCalDavTimeFromTimeStamp (todo_Timestamp t))
      else if k = ''UID'' then Some (todo_UID t) else None)"
  by (auto simp add: headLines_def seg_simps)

lemma lookup_color:
  "k \<noteq> ''X-APPLE-CALENDAR-COLOR'' \<Longrightarrow> k \<noteq> ''X-OUTLOOK-COLOR'' \<Longrightarrow> k \<noteq> ''X-FUNAMBOL-COLOR'' \<Longrightarrow>
   propertyMap (map lineProperty (colorLines c)) k = None"
  by (simp add: colorLines_def seg_simps)

lemma lookup_start:
  "propertyMap (map lineProperty (startLines D t)) k =
     (if k = ''DURATION'' \<and> Unix (todo_Start t) > 0 \<and> todo_Duration t \<noteq> 0 \<and> Unix (todo_DueDate t) = 0
      then Some (''PT'' @ formatDuration D (todo_Duration t))
      else if k = ''DTSTART'' \<and> Unix (todo_Start t) > 0
      then Some (makeCalDavTimeFromTimeStamp (todo_Start t)) else None)"
  by (auto simp add: startLines_def seg_simps)

lemma lookup_end:
  "propertyMap (map lineProperty (endLines t)) k =
     (if k = ''DTEND'' \<and> Unix (todo_End t) > 0
      then Some (makeCalDavTimeFromTimeStamp (todo_End t)) else None)"
  by (simp add: endLines_def seg_simps)

lemma lookup_description:
  "propertyMap (map lineProperty (descriptionLines t)) k =
     (if k = ''DESCRIPTION'' \<and> todo_Description t \<noteq> []
      then Some (escapeLineBreaks (todo_Description t)) else None)"
  by (simp add: descriptionLines_def seg_simps)

lemma lookup_completed:
  "propertyMap (map lineProperty (completedLines t)) k =
     (if k = ''STATUS'' \<and> Unix (todo_Completed t) > 0 then Some ''COMPLETED''
      else if k = ''COMPLETED'' \<and> Unix (todo_Completed t) > 0
      then Some (makeCalDavTimeFromTimeStamp (todo_Completed t)) else None)"
  by (auto simp add: completedLines_def seg_simps)

lemma lookup_organizer:
  "k \<noteq> ''ORGANIZER'' \<Longrightarrow> propertyMap (map lineProperty (organizerLines t)) k = None"
  by (simp add: organizerLines_def seg_simps split: option.split)

lemma lookup_related:
  "k \<noteq> ''RELATED-TO'' \<Longrightarrow> propertyMap (map lineProperty (relatedLines t)) k = None"
  by (simp add: relatedLines_def seg_simps)

lemma lookup_due:
  "propertyMap (map lineProperty (dueLines t)) k =
     (if k = ''DUE'' \<and> Unix (todo_DueDate t) > 0
      then Some (makeCalDavTimeFromTimeStamp (todo_DueDate t)) else None)"
  by (simp add: dueLines_def seg_simps)

lemma lookup_created:
  "k \<noteq> ''CREATED'' \<Longrightarrow> propertyMap (map lineProperty (createdLines t)) k = None"
  by (simp add: createdLines_def seg_simps)

lemma lookup_priority:
  "propertyMap (map lineProperty (priorityLines D t)) k =
     (if k = ''PRIORITY'' \<and> todo_Priority t \<noteq> 0
      then Some (Itoa (sint (mapPriorityToCaldav D (todo_Priority t)))) else None)"
  by (simp add: priorityLines_def seg_simps)

lemma lookup_repeat:
  "k \<noteq> ''RRULE'' \<Longrightarrow> propertyMap (map lineProperty (repeatLines t)) k = None"
  by (simp add: repeatLines_def seg_simps)

lemmas lookup_simps = todoProperties_def todoLines_def propertyMap_append
  lookup_head lookup_color lookup_start lookup_end lookup_description lookup_completed
  lookup_organizer lookup_related lookup_due lookup_created lookup_priority lookup_repeat
  plain_def lineProperty_def

lemma todo_lookups:
  "propertyMap (todoProperties D t) ''UID'' = Some (todo_UID t)"
  "propertyMap (todoProperties D t) ''SUMMARY'' = Some (todo_Summary t)"
  "propertyMap (todoProperties D t) ''DTSTAMP'' = Some (makeCalDavTimeFromTimeStamp (todo_Timestamp t))"
  "propertyMap (todoProperties D t) ''DUE'' =
     (if Unix (todo_DueDate t) > 0 then Some (makeCalDavTimeFromTimeStamp (todo_DueDate t)) else None)"
  "propertyMap (todoProperties D t) ''DTSTART'' =
     (if Unix (todo_Start t) > 0 then Some (makeCalDavTimeFromTimeStamp (todo_Start t)) else None)"
  "propertyMap (todoProperties D t) ''COMPLETED'' =
     (if Unix (todo_Completed t) > 0 then Some (makeCalDavTimeFromTimeStamp (todo_Completed t)) else None)"
  "propertyMap (todoProperties D t) ''STATUS'' =
     (if Unix (todo_Completed t) > 0 then Some ''COMPLETED'' else None)"
  "propertyMap (todoProperties D t) ''DESCRIPTION'' =
     (if todo_Description t \<noteq> [] then Some (escapeLineBreaks (todo_Description t)) else None)"
  "propertyMap (todoProperties D t) ''PRIORITY'' =
     (if todo_Priority t \<noteq> 0 then Some (Itoa (sint (mapPriorityToCaldav D (todo_Priority t)))) else None)"
  "propertyMap (todoProperties D t) ''DURATION'' =
     (if Unix (todo_Start t) > 0 \<and> todo_Duration t \<noteq> 0 \<and> Unix (todo_DueDate t) = 0
      then Some (''PT'' @ formatDuration D (todo_Duration t)) else None)"
  by (simp_all add: lookup_simps)

subsection \<open>From the written lines to the fields of the task\<close>

lemma caldavTimeToTimestamp_empty [simp]: "caldavTimeToTimestamp [] = zeroTime"
  by (simp add: caldavTimeToTimestamp_def)

lemma fillUID_fields [simp]:
  "todo_Timestamp (fillUID D x) = todo_Timestamp x"
  "todo_Summary (fillUID D x) = todo_Summary x"
  "todo_Description (fillUID D x) = todo_Description x"
  "todo_Completed (fillUID D x) = todo_Completed x"
  "todo_Priority (fillUID D x) = todo_Priority x"
  "todo_Start (fillUID D x) = todo_Start x"
  "todo_End (fillUID D x) = todo_End x"
  "todo_DueDate (fillUID D x) = todo_DueDate x"
  "todo_Duration (fillUID D x) = todo_Duration x"
  "todo_Updated (fillUID D x) = todo_Updated x"
  by (simp_all add: fillUID_def)



lemma deserialized_fields:
  assumes read: "ParseCalendar D content = Inr (todoProperties D x # others)"
    and times: "caldav_time (todo_Timestamp x)" "caldav_time (todo_DueDate x)"
      "caldav_time (todo_Start x)" "caldav_time (todo_Completed x)"
  shows "\<exists>task. ParseTaskFromVTODO D content = Inr task \<and>
     task_Title task = todo_Summary x \<and>
     task_Description task =
       ReplaceAll2 BSL CHR ''n'' [LF] (ReplaceAll2 BSL CHR '','' '','' (escapeLineBreaks (todo_Description x))) \<and>
     task_Done task = (Unix (todo_Completed x) > 0) \<and>
     task_DueDate task =
       (if Unix (todo_DueDate x) > 0 then (todo_DueDate x)\<lparr>t_nsec := 0\<rparr> else zeroTime) \<and>
     task_StartDate task =
       (if Unix (todo_Start x) > 0 then (todo_Start x)\<lparr>t_nsec := 0\<rparr> else zeroTime) \<and>
     task_DoneAt task =
       (if Unix (todo_Completed x) > 0 then (todo_Completed x)\<lparr>t_nsec := 0\<rparr> else zeroTime) \<and>
     task_Updated task = (todo_Timestamp x)\<lparr>t_nsec := 0\<rparr>"
proof -
  define m where "m = propertyMap (todoProperties D x)"
  note L = todo_lookups [of D x, folded m_def]
  have pri: "parsePriority D m =
        Inr (if todo_Priority x \<noteq> 0
             then parseVTODOPriority D (mapPriorityToCaldav D (todo_Priority x)) else 0)"
    by (simp add: parsePriority_def L at_def ParseInt_Itoa)
  have title: "at m ''SUMMARY'' = todo_Summary x"
    by (simp add: L at_def)
  have desc: "at m ''DESCRIPTION'' = escapeLineBreaks (todo_Description x)"
    by (simp add: L at_def)
  have status: "(at m ''STATUS'' = ''COMPLETED'') = (Unix (todo_Completed x) > 0)"
    by (simp add: L at_def)
  have due: "caldavTimeToTimestamp (at m ''DUE'') =
      (if Unix (todo_DueDate x) > 0 then (todo_DueDate x)\<lparr>t_nsec := 0\<rparr> else zeroTime)"
    by (simp add: L at_def caldavTimeToTimestamp_makeCalDavTime times)
  have start: "caldavTimeToTimestamp (at m ''DTSTART'') =
      (if Unix (todo_Start x) > 0 then (todo_Start x)\<lparr>t_nsec := 0\<rparr> else zeroTime)"
    by (simp add: L at_def caldavTimeToTimestamp_makeCalDavTime times)
  have doneat: "caldavTimeToTimestamp (at m ''COMPLETED'') =
      (if Unix (todo_Completed x) > 0 then (todo_Completed x)\<lparr>t_nsec := 0\<rparr> else zeroTime)"
    by (simp add: L at_def caldavTimeToTimestamp_makeCalDavTime times)
  have stamp: "caldavTimeToTimestamp (at m ''DTSTAMP'') = (todo_Timestamp x)\<lparr>t_nsec := 0\<rparr>"
    by (simp add: L at_def caldavTimeToTimestamp_makeCalDavTime times)
  show ?thesis
    unfolding ParseTaskFromVTODO_def read
    by (simp add: m_def [symmetric] pri title desc status due start doneat stamp Let_def
        del: One_nat_def)
qed



subsection \<open>The DURATION line\<close>




subsection \<open>Serializing a todo and reading it back\<close>

text \<open>
  C3, as stated, fails for the last-modified time. The serializer writes \<open>Updated\<close> as
  \<open>LAST-MODIFIED\<close> and \<open>Timestamp\<close> as \<open>DTSTAMP\<close>; the deserializer fills \<open>Updated\<close>
  from \<open>DTSTAMP\<close> and never reads \<open>LAST-MODIFIED\<close>. The todo below, without
  recurrence, was stamped on 1 January 2020 and last modified on 1 June 2021; read
  back, its \<open>Updated\<close> is 1 January 2020.
\<close>

theorem C3_last_modified_counterexample:
  "todo_RepeatAfter demo_edited_todo = 0 \<and>
   todo_RepeatMode demo_edited_todo = TaskRepeatModeDefault \<and>
   todo_Updated demo_edited_todo = date 2021 6 1 \<and>
   (case ParseTaskFromVTODO demo_deps (ParseTodos demo_deps demo_config [demo_edited_todo]) of
      Inl err \<Rightarrow> False
    | Inr task \<Rightarrow> task_Updated task = date 2020 1 1 \<and>
                 task_Updated task \<noteq> todo_Updated demo_edited_todo)"
  by code_simp

text \<open>
  C3, amended. Let the iCalendar reader return, for the text \<open>ParseTodos\<close> writes for a
  todo \<open>x\<close>, the content lines of \<open>x\<close> as its first component, and let the time stamp,
  due date, start date and completion date of \<open>x\<close> be times of the years 0 to 9999.
  Then \<open>ParseTaskFromVTODO\<close> returns a task such that: its title is the summary of
  \<open>x\<close>; its description is the description of \<open>x\<close> escaped and unescaped again, which
  is the description itself when that has no backslash and no carriage return; it is
  done exactly when \<open>x\<close> has a completion date (Unix time above 0); its due, start and
  done-at times are those of \<open>x\<close> cut to the second when they are set (Unix time above
  0) and the zero time otherwise; and its \<open>Updated\<close> is the \<open>Timestamp\<close> of \<open>x\<close> cut to
  the second, which is the last-modified time of \<open>x\<close> whenever the two agree, as for
  every todo that \<open>GetCaldavTodosForTasks\<close> builds.
\<close>

theorem C3_roundtrip:
  assumes "ParseCalendar D (ParseTodos D config [x]) = Inr (todoProperties D (fillUID D x) # others)"
    and "caldav_time (todo_Timestamp x)" and "caldav_time (todo_DueDate x)"
    and "caldav_time (todo_Start x)" and "caldav_time (todo_Completed x)"
  shows "\<exists>task. ParseTaskFromVTODO D (ParseTodos D config [x]) = Inr task \<and>
     task_Title task = todo_Summary x \<and>
     task_Description task =
       ReplaceAll2 BSL CHR ''n'' [LF]
         (ReplaceAll2 BSL CHR '','' '','' (escapeLineBreaks (todo_Description x))) \<and>
     (BSL \<notin> set (todo_Description x) \<and> CR \<notin> set (todo_Description x) \<longrightarrow>
        task_Description task = todo_Description x) \<and>
     task_Done task = (Unix (todo_Completed x) > 0) \<and>
     task_DueDate task =
       (if Unix (todo_DueDate x) > 0 then (todo_DueDate x)\<lparr>t_nsec := 0\<rparr> else zeroTime) \<and>
     task_StartDate task =
       (if Unix (todo_Start x) > 0 then (todo_Start x)\<lparr>t_nsec := 0\<rparr> else zeroTime) \<and>
     task_DoneAt task =
       (if Unix (todo_Completed x) > 0 then (todo_Completed x)\<lparr>t_nsec := 0\<rparr> else zeroTime) \<and>
     task_Updated task = (todo_Timestamp x)\<lparr>t_nsec := 0\<rparr>"
proof -
  from deserialized_fields [of D "ParseTodos D config [x]" "fillUID D x" others] assms
  obtain task where t: "ParseTaskFromVTODO D (ParseTodos D config [x]) = Inr task"
    "task_Title task = todo_Summary x"
    "task_Description task =
       ReplaceAll2 BSL CHR ''n'' [LF]
         (ReplaceAll2 BSL CHR '','' '','' (escapeLineBreaks (todo_Description x)))"
    "task_Done task = (Unix (todo_Completed x) > 0)"
    "task_DueDate task =
       (if Unix (todo_DueDate x) > 0 then (todo_DueDate x)\<lparr>t_nsec := 0\<rparr> else zeroTime)"
    "task_StartDate task =
       (if Unix (todo_Start x) > 0 then (todo_Start x)\<lparr>t_nsec := 0\<rparr> else zeroTime)"
    "task_DoneAt task =
       (if Unix (todo_Completed x) > 0 then (todo_Completed x)\<lparr>t_nsec := 0\<rparr> else zeroTime)"
    "task_Updated task = (todo_Timestamp x)\<lparr>t_nsec := 0\<rparr>"
    by auto
  have "task_Description task = todo_Description x"
    if "BSL \<notin> set (todo_Description x)" "CR \<notin> set (todo_Description x)"
    using that t(3) by (simp add: escape_has_no_escaped_comma unescape_escape)
  with t show ?thesis by blast
qed

lemma demo_done_read:
  "ParseCalendar demo_deps (ParseTodos demo_deps demo_config [demo_done_todo])
     = Inr (todoProperties demo_deps (fillUID demo_deps demo_done_todo) # [])"
  by code_simp

lemma demo_done_times:
  "caldav_time (todo_Timestamp demo_done_todo)"
  "caldav_time (todo_DueDate demo_done_todo)"
  "caldav_time (todo_Start demo_done_todo)"
  "caldav_time (todo_Completed demo_done_todo)"
  by (simp_all add: demo_done_todo_def date_def caldav_time_def valid_time_def daysIn_def)

lemma demo_done_unix:
  "0 < Unix (todo_Completed demo_done_todo)" "0 < Unix (todo_DueDate demo_done_todo)"
  "0 < Unix (todo_Start demo_done_todo)"
  by (simp_all add: demo_done_todo_def date_def Unix_def daysFromCivil_def Let_def)

lemma demo_done_fields:
  "todo_Summary demo_done_todo = ''Todo #2''"
  "todo_Description demo_done_todo = ''one'' @ [LF] @ ''two''"
  "(todo_DueDate demo_done_todo)\<lparr>t_nsec := 0\<rparr> = date 2020 3 1"
  "(todo_Start demo_done_todo)\<lparr>t_nsec := 0\<rparr> = date 2020 1 2"
  "(todo_Completed demo_done_todo)\<lparr>t_nsec := 0\<rparr> = date 2020 2 1"
  "(todo_Timestamp demo_done_todo)\<lparr>t_nsec := 0\<rparr> = date 2020 1 1"
  by (simp_all add: demo_done_todo_def date_def)

theorem C3_roundtrip_witness:
  "ParseCalendar demo_deps (ParseTodos demo_deps demo_config [demo_done_todo])
     = Inr (todoProperties demo_deps (fillUID demo_deps demo_done_todo) # []) \<and>
   caldav_time (todo_Timestamp demo_done_todo) \<and> caldav_time (todo_DueDate demo_done_todo) \<and>
   caldav_time (todo_Start demo_done_todo) \<and> caldav_time (todo_Completed demo_done_todo) \<and>
   BSL \<notin> set (todo_Description demo_done_todo) \<and> CR \<notin> set (todo_Description demo_done_todo) \<and>
   (\<exists>task. ParseTaskFromVTODO demo_deps (ParseTodos demo_deps demo_config [demo_done_todo])
             = Inr task \<and>
      task_Title task = ''Todo #2'' \<and>
      task_Description task = ''one'' @ [LF] @ ''two'' \<and>
      task_Done task \<and>
      task_DueDate task = date 2020 3 1 \<and>
      task_StartDate task = date 2020 1 2 \<and>
      task_DoneAt task = date 2020 2 1 \<and>
      task_Updated task = date 2020 1 1)"
proof -
  have chars: "BSL \<notin> set (todo_Description demo_done_todo)"
    "CR \<notin> set (todo_Description demo_done_todo)"
    by (simp_all add: demo_done_todo_def)
  from C3_roundtrip [OF demo_done_read demo_done_times]
  obtain task where
    t: "ParseTaskFromVTODO demo_deps (ParseTodos demo_deps demo_config [demo_done_todo]) = Inr task"
    and f: "task_Title task = todo_Summary demo_done_todo"
      "BSL \<notin> set (todo_Description demo_done_todo) \<and> CR \<notin> set (todo_Description demo_done_todo) \<longrightarrow>
        task_Description task = todo_Description demo_done_todo"
      "task_Done task = (Unix (todo_Completed demo_done_todo) > 0)"
      "task_DueDate task = (if Unix (todo_DueDate demo_done_todo) > 0
         then (todo_DueDate demo_done_todo)\<lparr>t_nsec := 0\<rparr> else zeroTime)"
      "task_StartDate task = (if Unix (todo_Start demo_done_todo) > 0
         then (todo_Start demo_done_todo)\<lparr>t_nsec := 0\<rparr> else zeroTime)"
      "task_DoneAt task = (if Unix (todo_Completed demo_done_todo) > 0
         then (todo_Completed demo_done_todo)\<lparr>t_nsec := 0\<rparr> else zeroTime)"
      "task_Updated task = (todo_Timestamp demo_done_todo)\<lparr>t_nsec := 0\<rparr>"
    by blast
  have g: "task_Title task = ''Todo #2''" "task_Description task = ''one'' @ [LF] @ ''two''"
    "task_Done task" "task_DueDate task = date 2020 3 1" "task_StartDate task = date 2020 1 2"
    "task_DoneAt task = date 2020 2 1" "task_Updated task = date 2020 1 1"
    using f chars by (simp_all only: demo_done_unix demo_done_fields if_True simp_thms)
  show ?thesis
    apply (intro conjI demo_done_read demo_done_times chars)
    apply (rule exI [of _ task])
    apply (intro conjI t g)
    done
qed

text \<open>
  A todo made of a task is stamped with the time the task was last updated, so for it
  the time read back into \<open>Updated\<close> is its last-modified time.
\<close>

lemma todoOfTask_Timestamp:
  "todo_Timestamp (todoOfTask t) = todo_Updated (todoOfTask t)"
  by (simp add: todoOfTask_def Let_def)

subsection \<open>Reading a time: which layout, and what when it fails\<close>

lemma getnum_fixed_shape:
  "getnum s True = Inr (n, rest) \<Longrightarrow> \<exists>c d. s = c # d # rest \<and> isDigitChar c \<and> isDigitChar d"
  by (auto simp add: getnum_def split: list.splits if_splits)

lemma getnum_shape:
  "getnum s fixed = Inr (n, rest) \<Longrightarrow>
     \<exists>c. isDigitChar c \<and> (s = c # rest \<or> (\<exists>d. s = c # d # rest \<and> isDigitChar d))"
  by (auto simp add: getnum_def split: list.splits if_splits)

lemma parseYear_shape:
  "parseYear s = Inr (y, rest) \<Longrightarrow> \<exists>pre. s = pre @ rest \<and> length pre = 4"
proof -
  assume "parseYear s = Inr (y, rest)"
  then have "rest = drop 4 s" "4 \<le> length s"
    by (auto simp add: parseYear_def split: if_splits)
  then have "s = take 4 s @ rest \<and> length (take 4 s) = 4" by simp
  then show ?thesis by blast
qed

lemma parseDate_shape:
  assumes "parseDate s = Inr (d, rest)"
  shows "\<exists>pre. s = pre @ rest \<and> length pre = 8"
proof -
  from assms obtain y s1 m s2 dd where
    a: "parseYear s = Inr (y, s1)" "getnum s1 True = Inr (m, s2)" "getnum s2 True = Inr (dd, rest)"
    by (auto simp add: parseDate_def split: sum.splits prod.splits if_splits)
  from parseYear_shape [OF a(1)] obtain p where p: "s = p @ s1" "length p = 4" by blast
  from getnum_fixed_shape [OF a(2)] obtain m1 m2 where m: "s1 = m1 # m2 # s2" by blast
  from getnum_fixed_shape [OF a(3)] obtain d1 d2 where d: "s2 = d1 # d2 # rest" by blast
  have "s = (p @ [m1, m2, d1, d2]) @ rest \<and> length (p @ [m1, m2, d1, d2]) = 8"
    using p m d by simp
  then show ?thesis by blast
qed

lemma parseFraction_shape:
  assumes "parseFraction s = (ns, rest)"
  shows "rest = s \<or> (\<exists>c d. s = c # d # takeWhile isDigitChar (tl (tl s)) @ rest \<and> isDigitChar d
       \<and> (rest \<noteq> [] \<longrightarrow> \<not> isDigitChar (hd rest)))"
  using assms
  by (auto simp add: parseFraction_def hd_dropWhile split: list.splits if_splits)


lemma last_digit_takeWhile:
  "isDigitChar d \<Longrightarrow> isDigitChar (last (d # takeWhile isDigitChar xs))"
proof (cases "takeWhile isDigitChar xs = []")
  case True
  assume "isDigitChar d"
  with True show ?thesis by simp
next
  case False
  then have "last (takeWhile isDigitChar xs) \<in> set (takeWhile isDigitChar xs)"
    by (rule last_in_set)
  then have "isDigitChar (last (takeWhile isDigitChar xs))"
    by (rule set_takeWhileD [THEN conjunct2])
  with False show ?thesis by simp
qed

lemma parseClock_shape:
  assumes "parseClock s = Inr (c, rest)"
  shows "\<exists>pre. s = pre @ rest \<and> 5 \<le> length pre \<and> isDigitChar (last pre)"
proof -
  from assms obtain h a mi b sec c3 ns where
    g: "getnum s False = Inr (h, a)" "getnum a True = Inr (mi, b)"
       "getnum b True = Inr (sec, c3)" "parseFraction c3 = (ns, rest)"
    by (auto simp add: parseClock_def split: sum.splits prod.splits if_splits)
  from getnum_shape [OF g(1)] obtain hp where hp: "s = hp @ a" "1 \<le> length hp"
    by auto
  from getnum_fixed_shape [OF g(2)] obtain m1 m2 where m: "a = m1 # m2 # b"
    by auto
  from getnum_fixed_shape [OF g(3)] obtain s1 s2 where
    sc: "b = s1 # s2 # c3" "isDigitChar s2"
    by auto
  from parseFraction_shape [OF g(4)]
  consider "rest = c3"
    | x d where "c3 = x # d # takeWhile isDigitChar (tl (tl c3)) @ rest" "isDigitChar d"
    by auto
  then show ?thesis
  proof cases
    case 1
    have "s = (hp @ [m1, m2, s1, s2]) @ rest" using hp m sc 1 by simp
    moreover have "5 \<le> length (hp @ [m1, m2, s1, s2])" using hp by simp
    moreover have "isDigitChar (last (hp @ [m1, m2, s1, s2]))" using sc by simp
    ultimately show ?thesis by blast
  next
    case 2
    let ?tw = "takeWhile isDigitChar (tl (tl c3))"
    let ?pre = "(hp @ [m1, m2, s1, s2, x]) @ (d # ?tw)"
    have "s = ?pre @ rest" using hp m sc 2(1) by simp
    moreover have "5 \<le> length ?pre" using hp by simp
    moreover have "last ?pre = last (d # ?tw)"
      by (rule last_appendR) simp
    then have "isDigitChar (last ?pre)"
      using last_digit_takeWhile [OF 2(2), of "tl (tl c3)"] by (simp only:)
    ultimately show ?thesis by blast
  qed
qed

lemma suffix_single: "suffix [c] s = (s \<noteq> [] \<and> last s = c)"
  by (cases s rule: rev_cases) (simp_all add: suffix_def)

lemma not_digit_Z: "\<not> isDigitChar CHR ''Z''"
  by (simp add: isDigitChar_def)

lemma skipChar_shape: "skipChar c s = Inr rest \<Longrightarrow> s = c # rest"
  by (auto simp add: skipChar_def split: list.splits if_splits)

lemma finishParse_shape: "finishParse d c rest = Inr t \<Longrightarrow> rest = []"
  by (auto simp add: finishParse_def split: prod.splits if_splits)

lemma Parse_DateOnly_layout:
  assumes "Parse DateOnly s = Inr t"
  shows "caldavLayout s = DateOnly \<and> s \<noteq> []"
proof -
  from assms obtain d rest where
    a: "parseDate s = Inr (d, rest)" "finishParse d (0, 0, 0, 0) rest = Inr t"
    by (auto simp add: Parse_def split: sum.splits prod.splits)
  from parseDate_shape [OF a(1)] finishParse_shape [OF a(2)] have "length s = 8" by auto
  then show ?thesis by (auto simp add: caldavLayout_def)
qed

lemma Parse_DateFormat_layout:
  assumes "Parse DateFormat s = Inr t"
  shows "caldavLayout s = DateFormat \<and> s \<noteq> []"
proof -
  from assms obtain d s1 s2 c rest where
    a: "parseDate s = Inr (d, s1)" "skipChar CHR ''T'' s1 = Inr s2" "parseClock s2 = Inr (c, rest)"
       "finishParse d c rest = Inr t"
    by (auto simp add: Parse_def split: sum.splits prod.splits)
  from parseClock_shape [OF a(3)] finishParse_shape [OF a(4)]
  have c: "5 \<le> length s2" "isDigitChar (last s2)" by auto
  from parseDate_shape [OF a(1)] skipChar_shape [OF a(2)]
  obtain pre where s: "s = pre @ CHR ''T'' # s2" "length pre = 8" by blast
  from c have ne: "s2 \<noteq> []" by auto
  then have "last s = last s2" using s by simp
  with c not_digit_Z have "last s \<noteq> CHR ''Z''" by auto
  moreover have "length s \<noteq> 8" using s by simp
  ultimately show ?thesis using s by (auto simp add: caldavLayout_def suffix_single)
qed

lemma Parse_DateFormatZ_layout:
  assumes "Parse DateFormatZ s = Inr t"
  shows "caldavLayout s = DateFormatZ \<and> s \<noteq> []"
proof -
  from assms obtain d s1 s2 c s3 rest where
    a: "parseDate s = Inr (d, s1)" "skipChar CHR ''T'' s1 = Inr s2" "parseClock s2 = Inr (c, s3)"
       "skipChar CHR ''Z'' s3 = Inr rest" "finishParse d c rest = Inr t"
    by (auto simp add: Parse_def split: sum.splits prod.splits)
  from parseClock_shape [OF a(3)] skipChar_shape [OF a(4)] finishParse_shape [OF a(5)]
  obtain p where p: "s2 = p @ ''Z''" by auto
  from parseDate_shape [OF a(1)] skipChar_shape [OF a(2)]
  obtain pre where s: "s = pre @ CHR ''T'' # s2" "length pre = 8" by blast
  have "last s = CHR ''Z''" using s p by simp
  moreover have "length s \<noteq> 8" using s by simp
  ultimately show ?thesis using s by (auto simp add: caldavLayout_def suffix_single)
qed

lemma caldavTimeToTimestamp_parsed:
  assumes "l = DateFormat \<or> l = DateFormatZ \<or> l = DateOnly" and "Parse l s = Inr t"
  shows "caldavTimeToTimestamp s = t"
  using assms Parse_DateOnly_layout [of s t] Parse_DateFormat_layout [of s t]
    Parse_DateFormatZ_layout [of s t]
  by (auto simp add: caldavTimeToTimestamp_def)

text \<open>
  C7. \<open>caldavTimeToTimestamp\<close> returns a time for every string, and no error. The
  empty string gives the zero time. The layout it parses with is one of
  \<open>20060102T150405\<close>, \<open>20060102T150405Z\<close> and \<open>20060102\<close>. A string that none of the
  three layouts parses gives the zero time, and a string that one of them parses gives
  the time parsed.
\<close>

theorem C7_caldavTimeToTimestamp:
  "caldavTimeToTimestamp [] = zeroTime \<and>
   (caldavLayout s = DateFormat \<or> caldavLayout s = DateFormatZ \<or> caldavLayout s = DateOnly) \<and>
   ((\<forall>l. l = DateFormat \<or> l = DateFormatZ \<or> l = DateOnly \<longrightarrow> (\<exists>err. Parse l s = Inl err))
      \<longrightarrow> caldavTimeToTimestamp s = zeroTime) \<and>
   ((l = DateFormat \<or> l = DateFormatZ \<or> l = DateOnly) \<and> Parse l u = Inr t
      \<longrightarrow> caldavTimeToTimestamp u = t)"
proof -
  have layout: "caldavLayout s = DateFormat \<or> caldavLayout s = DateFormatZ \<or> caldavLayout s = DateOnly"
    by (simp add: caldavLayout_def Let_def)
  have "caldavTimeToTimestamp s = zeroTime"
    if "\<forall>l. l = DateFormat \<or> l = DateFormatZ \<or> l = DateOnly \<longrightarrow> (\<exists>err. Parse l s = Inl err)"
  proof -
    from that layout obtain err where "Parse (caldavLayout s) s = Inl err" by blast
    then show ?thesis by (simp add: caldavTimeToTimestamp_def)
  qed
  moreover have "caldavTimeToTimestamp u = t"
    if "(l = DateFormat \<or> l = DateFormatZ \<or> l = DateOnly) \<and> Parse l u = Inr t"
    using that caldavTimeToTimestamp_parsed [of l u t] by blast
  ultimately show ?thesis using layout by simp
qed

theorem C7_caldavTimeToTimestamp_witness:
  "Parse DateFormat ''next week'' = Inl ErrBad \<and> Parse DateFormatZ ''next week'' = Inl ErrBad \<and>
   Parse DateOnly ''next week'' = Inl ErrBad \<and>
   caldavTimeToTimestamp ''next week'' = zeroTime \<and>
   Parse DateFormatZ ''20200229T235959Z'' =
     Inr \<lparr> t_year = 2020, t_month = 2, t_day = 29, t_hour = 23, t_minute = 59, t_second = 59,
           t_nsec = 0 \<rparr> \<and>
   caldavTimeToTimestamp ''20200229T235959Z'' =
     \<lparr> t_year = 2020, t_month = 2, t_day = 29, t_hour = 23, t_minute = 59, t_second = 59,
       t_nsec = 0 \<rparr>"
proof -
  have bad: "Parse DateFormat ''next week'' = Inl ErrBad"
    "Parse DateFormatZ ''next week'' = Inl ErrBad" "Parse DateOnly ''next week'' = Inl ErrBad"
    by code_simp+
  have good: "Parse DateFormatZ ''20200229T235959Z'' =
     Inr \<lparr> t_year = 2020, t_month = 2, t_day = 29, t_hour = 23, t_minute = 59, t_second = 59,
           t_nsec = 0 \<rparr>"
    by code_simp
  have none: "\<forall>l. l = DateFormat \<or> l = DateFormatZ \<or> l = DateOnly
      \<longrightarrow> (\<exists>err. Parse l ''next week'' = Inl err)"
    using bad by auto
  from C7_caldavTimeToTimestamp [of "''next week''" DateFormatZ "''20200229T235959Z''"
      "\<lparr> t_year = 2020, t_month = 2, t_day = 29, t_hour = 23, t_minute = 59, t_second = 59,
         t_nsec = 0 \<rparr>"] none good bad
  show ?thesis by simp
qed

lemma caldavTimeToTimestamp_examples:
  "caldavTimeToTimestamp ''20200230'' = zeroTime \<and>
   caldavTimeToTimestamp ''20200101'' = date 2020 1 1 \<and>
   caldavTimeToTimestamp ''2020010Z'' = zeroTime \<and>
   caldavTimeToTimestamp ''20200101T120000'' = (date 2020 1 1)\<lparr>t_hour := 12\<rparr> \<and>
   caldavTimeToTimestamp ''20200101T250000Z'' = zeroTime"
  by code_simp

section \<open>Theorems about the structure importer\<close>

subsection \<open>Every piece of the walk leaves the committed data alone\<close>

lemma keeps_Go_on [simp]: "keeps Q w (Go_on w x)"
  by (simp add: keeps_def)

lemma keeps_Panicked [simp]: "keeps Q w (Panicked w)"
  by (simp add: keeps_def)

lemma keeps_attempt: "Q k \<Longrightarrow> keeps Q w (attempt k f w)"
  by (auto simp add: keeps_def attempt_def Rollback_def split: sum.splits)

lemma keeps_attemptFile: "Q OpFilesCreate \<Longrightarrow> keeps Q w (attemptFile f w)"
  by (auto simp add: keeps_def attemptFile_def Rollback_def split: sum.splits)

lemma keeps_andThen:
  assumes r: "keeps Q w r" and k: "\<And>w' x. keeps Q w' (k w' x)"
  shows "keeps Q w (andThen r k)"
proof (cases r)
  case (Go_on w1 x)
  with r obtain tr where 1: "w_committed w1 = w_committed w" "w_trace w1 = w_trace w @ tr"
    "list_all (ok_event Q) tr"
    by (auto simp add: keeps_def)
  show ?thesis
  proof (cases "k w1 x")
    case (Go_on w2 y)
    with k [of w1 x] obtain tr2 where "w_committed w2 = w_committed w1"
      "w_trace w2 = w_trace w1 @ tr2" "list_all (ok_event Q) tr2"
      by (auto simp add: keeps_def)
    with 1 have "w_committed w2 = w_committed w \<and> w_trace w2 = w_trace w @ (tr @ tr2) \<and>
      list_all (ok_event Q) (tr @ tr2)" by simp
    then show ?thesis using \<open>r = Go_on w1 x\<close> Go_on unfolding keeps_def andThen_def
      by (simp only: res.case) blast
  next
    case (Returned err w2)
    with k [of w1 x] obtain tr2 kk where "w_committed w2 = w_committed w1"
      "w_working w2 = w_committed w1"
      "w_trace w2 = w_trace w1 @ tr2 @ [Did kk (Some err), RolledBack]" "list_all (ok_event Q) tr2"
      by (auto simp add: keeps_def)
    with 1 have "w_committed w2 = w_committed w \<and> w_working w2 = w_committed w \<and>
      w_trace w2 = w_trace w @ (tr @ tr2) @ [Did kk (Some err), RolledBack] \<and>
      list_all (ok_event Q) (tr @ tr2)" by simp
    then show ?thesis using \<open>r = Go_on w1 x\<close> Returned unfolding keeps_def andThen_def
      by (simp only: res.case) blast
  next
    case (Panicked w2)
    with k [of w1 x] obtain tr2 where "w_committed w2 = w_committed w1"
      "w_trace w2 = w_trace w1 @ tr2" "list_all (ok_event Q) tr2"
      by (auto simp add: keeps_def)
    with 1 have "w_committed w2 = w_committed w \<and> w_trace w2 = w_trace w @ (tr @ tr2) \<and>
      list_all (ok_event Q) (tr @ tr2)" by simp
    then show ?thesis using \<open>r = Go_on w1 x\<close> Panicked unfolding keeps_def andThen_def
      by (simp only: res.case) blast
  qed
next
  case (Returned err w1)
  with r show ?thesis by (simp add: keeps_def andThen_def)
next
  case (Panicked w1)
  with r show ?thesis by (simp add: keeps_def andThen_def)
qed

lemma keeps_createLabels:
  "Q OpLabelCreate \<Longrightarrow> Q OpLabelTaskCreate \<Longrightarrow> keeps Q w (createLabels I u taskID labels w ls)"
proof (induction ls arbitrary: labels w)
  case Nil
  show ?case by simp
next
  case (Cons l ls)
  show ?case
    by (auto simp add: Cons keeps_attempt split: option.split intro!: keeps_andThen)
qed

lemma keeps_createAttachments:
  "Q OpNewAttachment \<Longrightarrow> keeps Q w (createAttachments I u taskID w as)"
proof (induction as arbitrary: w)
  case Nil
  show ?case by simp
next
  case (Cons a as)
  show ?case
    by (auto simp add: Cons keeps_attempt split: option.split intro!: keeps_andThen)
qed

lemma keeps_createRelatedTasks:
  "Q OpRelatedTaskCreate \<Longrightarrow> Q OpTaskRelationCreate \<Longrightarrow>
   keeps Q w (createRelatedTasks I u t kind w rts)"
proof (induction rts arbitrary: w)
  case Nil
  show ?case by simp
next
  case (Cons rt rts)
  show ?case
    by (auto simp add: Cons keeps_attempt intro!: keeps_andThen)
qed

lemma keeps_createRelations:
  "Q OpRelatedTaskCreate \<Longrightarrow> Q OpTaskRelationCreate \<Longrightarrow>
   keeps Q w (createRelations I u t w es)"
proof (induction es arbitrary: w)
  case Nil
  show ?case by simp
next
  case (Cons e es)
  show ?case
    by (auto simp add: Cons keeps_createRelatedTasks intro!: keeps_andThen)
qed

lemma keeps_createTasks:
  "task_ops Q \<Longrightarrow> keeps Q w (createTasks I u listID buckets needs labels w ts)"
proof (induction ts arbitrary: needs labels w)
  case Nil
  show ?case by simp
next
  case (Cons t ts)
  from Cons.prems have q: "Q OpTaskCreate" "Q OpRelatedTaskCreate" "Q OpTaskRelationCreate"
     "Q OpNewAttachment" "Q OpLabelCreate" "Q OpLabelTaskCreate"
    by (simp_all add: task_ops_def)
  show ?case
    unfolding createTasks.simps Let_def
    by (intro keeps_andThen keeps_attempt keeps_createRelations keeps_createAttachments
        keeps_createLabels q Cons.IH Cons.prems)
qed

lemma keeps_createBuckets:
  "Q OpBucketCreate \<Longrightarrow> keeps Q w (createBuckets I u listID buckets w bs)"
proof (induction bs arbitrary: buckets w)
  case Nil
  show ?case by simp
next
  case (Cons b bs)
  show ?case
    by (auto simp add: Cons keeps_attempt Let_def intro!: keeps_andThen)
qed








subsection \<open>The default bucket of an imported list\<close>

lemma andThen_Go_on:
  "andThen r k = Go_on w' y \<Longrightarrow> \<exists>w1 x. r = Go_on w1 x \<and> k w1 x = Go_on w' y"
  by (cases r) (simp_all add: andThen_def)

lemma attempt_Go_on:
  "attempt k f w = Go_on w' x \<Longrightarrow>
     \<exists>db. f (w_working w) = Inr (db, x) \<and> w_trace w' = w_trace w @ [Did k None]"
  by (auto simp add: attempt_def split: sum.splits)

lemma keeps_Go_on_trace:
  "keeps Q w r \<Longrightarrow> r = Go_on w' x \<Longrightarrow> \<exists>tr. w_trace w' = w_trace w @ tr \<and> list_all (ok_event Q) tr"
  by (auto simp add: keeps_def)

lemma createBuckets_map:
  assumes ids: "\<And>db b db' b'. op_BucketCreate I db u b = Inr (db', b') \<Longrightarrow> bk_ID b' \<noteq> 0"
  shows "createBuckets I u listID m w bs = Go_on w' m' \<Longrightarrow> \<forall>b \<in> ran m. bk_ID b \<noteq> 0 \<Longrightarrow>
     dom m' = dom m \<union> bk_ID ` set bs \<and> (\<forall>b \<in> ran m'. bk_ID b \<noteq> 0)"
proof (induction bs arbitrary: m w)
  case Nil
  then show ?case by simp
next
  case (Cons b bs)
  from Cons.prems(1) obtain w1 created where
    a: "attempt OpBucketCreate
          (\<lambda>db. op_BucketCreate I db u (b\<lparr>bk_ID := 0, bk_ListID := listID\<rparr>)) w = Go_on w1 created"
    and r: "createBuckets I u listID (m(bk_ID b \<mapsto> created)) w1 bs = Go_on w' m'"
    by (auto simp add: Let_def dest!: andThen_Go_on)
  from attempt_Go_on [OF a] ids have nz: "bk_ID created \<noteq> 0" by blast
  have "\<forall>x \<in> ran (m(bk_ID b \<mapsto> created)). bk_ID x \<noteq> 0"
    using nz Cons.prems(2) by (auto simp add: ran_def split: if_splits)
  from Cons.IH [OF r this] show ?case by auto
qed

lemma createTasks_flag:
  "createTasks I u listID buckets needs labels w ts = Go_on w' after \<Longrightarrow>
   \<forall>b \<in> ran buckets. bk_ID b \<noteq> 0 \<Longrightarrow>
   fst after = (needs \<or> (\<exists>t \<in> set ts. tk_BucketID (it_Task t) \<notin> dom buckets))"
proof (induction ts arbitrary: needs labels w)
  case Nil
  then show ?case by auto
next
  case (Cons t ts)
  let ?bucket = "buckets (tk_BucketID (it_Task t))"
  let ?t1 = "case ?bucket of Some b \<Rightarrow> (it_Task t)\<lparr>tk_BucketID := bk_ID b\<rparr>
              | None \<Rightarrow> if 0 <s tk_BucketID (it_Task t)
                        then (it_Task t)\<lparr>tk_BucketID := 0\<rparr> else it_Task t"
  let ?needs = "if \<not> (?bucket \<noteq> None) \<or> tk_BucketID ?t1 = 0 then True else needs"
  from Cons.prems(1) obtain w1 labels1 where
    r: "createTasks I u listID buckets ?needs labels1 w1 ts = Go_on w' after"
    unfolding createTasks.simps Let_def
    by (blast dest!: andThen_Go_on)
  have n: "?needs = (needs \<or> tk_BucketID (it_Task t) \<notin> dom buckets)"
  proof (cases ?bucket)
    case None
    then show ?thesis by (auto simp add: dom_def)
  next
    case (Some b)
    then have "b \<in> ran buckets" by (auto simp add: ran_def)
    with Cons.prems(2) have "bk_ID b \<noteq> 0" by blast
    with Some show ?thesis by (auto simp add: dom_def)
  qed
  from Cons.IH [OF r Cons.prems(2)] n show ?case by auto
qed

lemma deleteDefaultBucket_Go_on:
  "deleteDefaultBucket I u listID w = Go_on w' x \<Longrightarrow>
     w_trace w' = w_trace w @ [Did OpBucketReadAll None, Did OpBucketDelete None]"
  unfolding deleteDefaultBucket_def
  by (auto dest!: andThen_Go_on attempt_Go_on split: list.splits)

lemma ok_event_not_delete:
  "list_all (ok_event before_delete) tr \<Longrightarrow> Did OpBucketDelete None \<notin> set tr"
  by (auto simp add: list_all_iff before_delete_def)

text \<open>
  C9, as stated, fails: the condition is the other way round. In the first import the
  only task names no bucket and so falls back to the default bucket of its list; the
  import succeeds, no bucket is deleted and the default bucket is among the rows
  committed. In the second import the only task names an imported bucket, and the
  first bucket of the list is deleted.
\<close>

theorem C9_default_bucket_counterexample:
  "fst (InsertFromStructure demo_ops [demo_namespace [demo_list [] [demo_task ''a'' 0]]]
          (demo_user 1 ''user1'') [] 0) = Success \<and>
   Did OpBucketDelete None \<notin>
     set (w_trace (snd (InsertFromStructure demo_ops
            [demo_namespace [demo_list [] [demo_task ''a'' 0]]] (demo_user 1 ''user1'') [] 0))) \<and>
   w_committed (snd (InsertFromStructure demo_ops
            [demo_namespace [demo_list [] [demo_task ''a'' 0]]] (demo_user 1 ''user1'') [] 0)) =
     [''namespace imported'', ''default bucket of inbox'', ''list inbox'', ''task a''] \<and>
   fst (InsertFromStructure demo_ops [demo_namespace [demo_list [demo_bucket] [demo_task ''a'' 7]]]
          (demo_user 1 ''user1'') [] 0) = Success \<and>
   Did OpBucketDelete None \<in>
     set (w_trace (snd (InsertFromStructure demo_ops
            [demo_namespace [demo_list [demo_bucket] [demo_task ''a'' 7]]]
            (demo_user 1 ''user1'') [] 0)))"
  by code_simp

text \<open>
  C9, amended. Let the keys that creating a bucket hands out be different from 0. For
  an imported list that is created without error, the first bucket of the list, the one
  created with it, is deleted exactly when every imported task of the list names one of
  the imported buckets of the list (in particular when the list has no task); reading
  and deleting that bucket are then the last two calls for the list, after all its
  tasks are created. When some task names no imported bucket, no bucket is deleted.
\<close>

theorem C9_default_bucket:
  assumes run: "createList I u namespaceID labels w l = Go_on w' labels'"
    and ids: "\<And>db b db' b'. op_BucketCreate I db u b = Inr (db', b') \<Longrightarrow> bk_ID b' \<noteq> 0"
  shows "(Did OpBucketDelete None \<in> set (drop (length (w_trace w)) (w_trace w'))) =
           (\<forall>t \<in> set (lwt_Tasks l). tk_BucketID (it_Task t) \<in> bk_ID ` set (lwt_Buckets l)) \<and>
         ((\<forall>t \<in> set (lwt_Tasks l). tk_BucketID (it_Task t) \<in> bk_ID ` set (lwt_Buckets l)) \<longrightarrow>
            (\<exists>tr. w_trace w' = w_trace w @ tr @ [Did OpBucketReadAll None, Did OpBucketDelete None] \<and>
                  Did OpBucketDelete None \<notin> set tr))"
proof -
  from run obtain w1 listID w2 w3 buckets w4 after w5 where
    s1: "attempt OpListCreate (\<lambda>db. op_ListCreate I db u (l\<lparr>lwt_NamespaceID := namespaceID\<rparr>)) w
           = Go_on w1 listID"
    and s2: "(case lwt_BackgroundInformation l of
               Some backgroundFile \<Rightarrow>
                 andThen
                   (attemptFile
                      (\<lambda>fs. op_filesCreate I fs backgroundFile []
                              (of_nat (length backgroundFile)) u) w1)
                   (\<lambda>w file.
                      attempt OpSetListBackground (\<lambda>db. op_SetListBackground I db listID file) w)
             | None \<Rightarrow> Go_on w1 ()) = Go_on w2 ()"
    and s3: "createBuckets I u listID Map.empty w2 (lwt_Buckets l) = Go_on w3 buckets"
    and s4: "createTasks I u listID buckets False labels w3 (lwt_Tasks l) = Go_on w4 after"
    and s5: "(if \<not> fst after then deleteDefaultBucket I u listID w4 else Go_on w4 ()) = Go_on w5 ()"
    and s6: "w' = w5"
    unfolding createList_def
    by (auto dest!: andThen_Go_on)
  have q: "before_delete OpListCreate" "before_delete OpFilesCreate" "before_delete OpSetListBackground"
    "before_delete OpBucketCreate" "task_ops before_delete"
    by (simp_all add: before_delete_def task_ops_def)
  have k1: "keeps before_delete w (attempt OpListCreate
      (\<lambda>db. op_ListCreate I db u (l\<lparr>lwt_NamespaceID := namespaceID\<rparr>)) w)"
    by (intro keeps_attempt q)
  have k2: "keeps before_delete w1 (case lwt_BackgroundInformation l of
               Some backgroundFile \<Rightarrow>
                 andThen
                   (attemptFile
                      (\<lambda>fs. op_filesCreate I fs backgroundFile []
                              (of_nat (length backgroundFile)) u) w1)
                   (\<lambda>w file.
                      attempt OpSetListBackground (\<lambda>db. op_SetListBackground I db listID file) w)
             | None \<Rightarrow> Go_on w1 ())"
    by (auto split: option.split intro!: keeps_andThen keeps_attemptFile keeps_attempt q)
  have k3: "keeps before_delete w2 (createBuckets I u listID Map.empty w2 (lwt_Buckets l))"
    by (intro keeps_createBuckets q)
  have k4: "keeps before_delete w3 (createTasks I u listID buckets False labels w3 (lwt_Tasks l))"
    by (intro keeps_createTasks q)
  from keeps_Go_on_trace [OF k1 s1] keeps_Go_on_trace [OF k2 s2] keeps_Go_on_trace [OF k3 s3]
    keeps_Go_on_trace [OF k4 s4]
  obtain tr where tr: "w_trace w4 = w_trace w @ tr" "list_all (ok_event before_delete) tr"
    by (metis append.assoc list_all_append)
  from createBuckets_map [OF ids s3] have m: "dom buckets = bk_ID ` set (lwt_Buckets l)"
    "\<forall>b \<in> ran buckets. bk_ID b \<noteq> 0"
    by simp_all
  from createTasks_flag [OF s4 m(2)] m(1)
  have flag: "(\<not> fst after) =
      (\<forall>t \<in> set (lwt_Tasks l). tk_BucketID (it_Task t) \<in> bk_ID ` set (lwt_Buckets l))"
    by simp
  show ?thesis
  proof (cases "fst after")
    case True
    with s5 s6 have "w' = w4" by simp
    with tr True flag ok_event_not_delete [OF tr(2)] show ?thesis by auto
  next
    case False
    with s5 s6 have "deleteDefaultBucket I u listID w4 = Go_on w' ()" by simp
    from deleteDefaultBucket_Go_on [OF this] tr
    have "w_trace w' = w_trace w @ tr @ [Did OpBucketReadAll None, Did OpBucketDelete None]"
      by simp
    with False flag ok_event_not_delete [OF tr(2)] show ?thesis by auto
  qed
qed

lemma odd_word_nonzero: "1 + 2 * (x :: int64) \<noteq> 0"
proof
  assume "1 + 2 * x = 0"
  then have "even (1 + 2 * x)" by simp
  then show False by simp
qed

lemma demo_bucket_ids:
  "op_BucketCreate demo_ops db u b = Inr (db', b') \<Longrightarrow> bk_ID b' \<noteq> 0"
  by (auto simp add: demo_ops_def demo_insert_def odd_word_nonzero)

lemma demo_createList:
  "createList demo_ops (demo_user 1 ''user1'') 1 Map.empty (NewSession [] 0)
     (demo_list [demo_bucket] [demo_task ''a'' 7]) =
   Go_on \<lparr> w_committed = [],
           w_working = [''default bucket of inbox'', ''list inbox'', ''bucket Doing'', ''task a'',
                        ''deleted bucket Backlog''],
           w_files = 0,
           w_trace = [Did OpListCreate None, Did OpBucketCreate None, Did OpTaskCreate None,
                      Did OpBucketReadAll None, Did OpBucketDelete None] \<rparr>
         Map.empty"
  by (simp add: createList_def demo_ops_def demo_insert_def demo_list_def demo_bucket_def
      demo_task_def NewSession_def attempt_def andThen_def deleteDefaultBucket_def Let_def)

theorem C9_default_bucket_witness:
  "createList demo_ops (demo_user 1 ''user1'') 1 Map.empty (NewSession [] 0)
     (demo_list [demo_bucket] [demo_task ''a'' 7]) =
   Go_on \<lparr> w_committed = [],
           w_working = [''default bucket of inbox'', ''list inbox'', ''bucket Doing'', ''task a'',
                        ''deleted bucket Backlog''],
           w_files = 0,
           w_trace = [Did OpListCreate None, Did OpBucketCreate None, Did OpTaskCreate None,
                      Did OpBucketReadAll None, Did OpBucketDelete None] \<rparr>
         Map.empty \<and>
   list_all (\<lambda>t. tk_BucketID (it_Task t) \<in> set (map bk_ID [demo_bucket])) [demo_task ''a'' 7] \<and>
   Did OpBucketDelete None \<in>
     set [Did OpListCreate None, Did OpBucketCreate None, Did OpTaskCreate None,
          Did OpBucketReadAll None, Did OpBucketDelete None]"
proof -
  have refs: "\<forall>t \<in> set (lwt_Tasks (demo_list [demo_bucket] [demo_task ''a'' 7])).
      tk_BucketID (it_Task t) \<in> bk_ID ` set (lwt_Buckets (demo_list [demo_bucket] [demo_task ''a'' 7]))"
    by (simp add: demo_list_def demo_task_def demo_bucket_def)
  from C9_default_bucket [OF demo_createList demo_bucket_ids] refs demo_createList
  show ?thesis
    by (simp add: NewSession_def demo_task_def demo_bucket_def)
qed

end
